theory Spec2Isabelle
  imports Complex_Main
begin

section \<open>Data model of the payment gateway\<close>

text \<open>
  The gateway is a Fastify/Prisma/BullMQ service. The embedding keeps the relational
  tables as lists of rows, the queues as lists of jobs and the key/value store as a map.
  JavaScript numbers that carry money are modelled as exact rationals (the values a
  decimal column holds), timestamps as milliseconds since the epoch, nullable columns
  as options. The \<open>metadata\<close> JSON columns are left out. A handler runs to its end
  before the next one starts: interleavings of concurrent requests are not modelled.
\<close>

datatype payment_status =
  Pending | Processing | Completed | Failed | Cancelled | Refunded | PartiallyRefunded | Expired

datatype channel = Moncash | Natcash | Stripe

datatype currency = HTG | USD

record payment =
  p_id :: nat
  p_payment_ref :: string
  p_merchant_id :: string
  p_environment :: string
  p_order_id :: "string option"
  p_idempotency_key :: "string option"
  p_channel :: channel
  p_status :: payment_status
  p_amount :: rat
  p_currency :: currency
  p_fee_amount :: "rat option"
  p_fee_rate :: "rat option"
  p_net_amount :: "rat option"
  p_refunded_amount :: rat
  p_description :: "string option"
  p_customer_email :: "string option"
  p_customer_phone :: "string option"
  p_customer_name :: "string option"
  p_customer_id :: "nat option"
  p_provider_transaction_id :: "string option"
  p_provider_redirect_url :: "string option"
  p_expires_at :: "nat option"
  p_completed_at :: "nat option"
  p_failed_at :: "nat option"
  p_refunded_at :: "nat option"
  p_failure_reason :: "string option"
  p_created_at :: nat

datatype txn_type = Credit | Refund

record txn =
  t_id :: nat
  t_transaction_ref :: string
  t_payment_id :: nat
  t_merchant_id :: string
  t_type :: txn_type
  t_status :: string
  t_amount :: rat
  t_currency :: currency
  t_description :: string
  t_created_at :: nat

record customer =
  c_id :: nat
  c_merchant_id :: string
  c_environment :: string
  c_email :: "string option"
  c_phone :: "string option"
  c_name :: "string option"
  c_total_spent :: rat
  c_payment_count :: nat
  c_first_payment_at :: nat
  c_last_payment_at :: nat

record webhook_config =
  wc_id :: nat
  wc_merchant_id :: string
  wc_url :: string
  wc_events :: "string list"
  wc_secret :: string
  wc_is_active :: bool

text \<open>The event envelope of \<open>buildPayload\<close> with the payment snapshot it wraps.\<close>

record payload_data =
  pd_payment_ref :: string
  pd_order_id :: "string option"
  pd_channel :: channel
  pd_status :: payment_status
  pd_amount :: rat
  pd_currency :: currency
  pd_fee_amount :: rat
  pd_net_amount :: rat
  pd_provider_transaction_id :: "string option"
  pd_created_at :: nat
  pd_completed_at :: "nat option"
  pd_failed_at :: "nat option"
  pd_failure_reason :: "string option"

record event_payload =
  ep_api_version :: string
  ep_event_type :: string
  ep_created_at :: nat
  ep_data :: payload_data

datatype log_status = LogPending | LogDelivered | LogFailed

record webhook_log =
  wl_id :: nat
  wl_webhook_config_id :: nat
  wl_payment_id :: nat
  wl_event_type :: string
  wl_payload :: event_payload
  wl_status :: log_status
  wl_http_status :: "nat option"
  wl_response_body :: "string option"
  wl_attempt_count :: nat
  wl_last_attempt_at :: "nat option"
  wl_delivered_at :: "nat option"
  wl_created_at :: nat

text \<open>\<open>PaymentJobData\<close> and \<open>WebhookJobData\<close> of the queue module, and a queued job
  with the options it was added with.\<close>

record payment_job_data =
  pj_payment_ref :: string
  pj_merchant_id :: string
  pj_amount :: rat
  pj_currency :: currency
  pj_order_id :: "string option"
  pj_description :: "string option"
  pj_customer_phone :: "string option"
  pj_customer_email :: "string option"

record webhook_job_data =
  wj_webhook_config_id :: nat
  wj_payment_id :: nat
  wj_event_type :: string
  wj_payload :: event_payload
  wj_attempt :: nat

record 'd job =
  job_name :: string
  job_data :: 'd
  job_attempts :: nat
  job_backoff_delay :: nat

text \<open>The body the create route answers with, which is also what it caches.\<close>

record create_response =
  cr_payment_ref :: string
  cr_channel :: channel
  cr_status :: payment_status
  cr_amount :: rat
  cr_currency :: currency
  cr_fee_amount :: rat
  cr_net_amount :: rat
  cr_description :: "string option"
  cr_redirect_url :: "string option"
  cr_expires_at :: "nat option"
  cr_created_at :: nat

text \<open>
  The whole store. \<open>faults\<close> is the oracle of the relational store: it lists, for the
  coming Prisma writes in order, whether the write throws (\<open>Some message\<close>) or goes
  through (\<open>None\<close>); once the list is used up every write goes through. A failing read
  persists the same rows as a failure of the next write, so only writes consult the oracle.
  A Redis entry carries the time at which it expires.
\<close>

record world =
  payments :: "payment list"
  transactions :: "txn list"
  customers :: "customer list"
  webhook_configs :: "webhook_config list"
  webhook_logs :: "webhook_log list"
  next_id :: nat
  faults :: "string option list"
  redis :: "string \<Rightarrow> (create_response \<times> nat) option"
  monCashQueue :: "payment_job_data job list"
  natCashQueue :: "payment_job_data job list"
  stripeQueue :: "payment_job_data job list"
  dlqQueue :: "payment_job_data job list"
  webhookQueue :: "webhook_job_data job list"

subsection \<open>Errors\<close>

datatype error_code =
  VALIDATION_ERROR | PAYMENT_NOT_FOUND | REFUND_EXCEEDS_AMOUNT | REFUND_NOT_ALLOWED
  | PROVIDER_ERROR | PROVIDER_TIMEOUT | PROVIDER_UNAVAILABLE | TOKEN_INVALID

text \<open>An exception is either an \<open>ApiError\<close> of the taxonomy or any other error, of which
  only the message is kept.\<close>

datatype error = ApiError error_code | Thrown string

fun statusCode :: "error_code \<Rightarrow> nat" where
  "statusCode VALIDATION_ERROR = 400"
| "statusCode PAYMENT_NOT_FOUND = 404"
| "statusCode REFUND_EXCEEDS_AMOUNT = 422"
| "statusCode REFUND_NOT_ALLOWED = 422"
| "statusCode PROVIDER_ERROR = 502"
| "statusCode PROVIDER_TIMEOUT = 504"
| "statusCode PROVIDER_UNAVAILABLE = 503"
| "statusCode TOKEN_INVALID = 401"

text \<open>The messages of \<open>ERROR_CODES\<close>, as UTF-8 bytes.\<close>

fun code_message :: "error_code \<Rightarrow> string" where
  "code_message VALIDATION_ERROR = ''Erreur de validation''"
| "code_message PAYMENT_NOT_FOUND = ''Paiement introuvable''"
| "code_message REFUND_EXCEEDS_AMOUNT =
     ''Le montant du remboursement d'' @ [CHR 0xC3, CHR 0xA9] @ ''passe le montant du paiement''"
| "code_message REFUND_NOT_ALLOWED =
     ''Remboursement non autoris'' @ [CHR 0xC3, CHR 0xA9] @ '' pour ce paiement''"
| "code_message PROVIDER_ERROR = ''Erreur du fournisseur de paiement''"
| "code_message PROVIDER_TIMEOUT =
     ''Le fournisseur de paiement n'' @ [CHR 0x27] @ ''a pas r'' @ [CHR 0xC3, CHR 0xA9]
       @ ''pondu '' @ [CHR 0xC3, CHR 0xA0] @ '' temps''"
| "code_message PROVIDER_UNAVAILABLE = ''Fournisseur de paiement temporairement indisponible''"
| "code_message TOKEN_INVALID = ''Jeton invalide''"

fun message :: "error \<Rightarrow> string" where
  "message (ApiError c) = code_message c"
| "message (Thrown m) = m"

subsection \<open>JSON values and JavaScript truthiness\<close>

datatype jv = JNull | JBool bool | JNum rat | JStr string | JOther

type_synonym json_object = "string \<Rightarrow> jv option"

text \<open>\<open>!!v\<close> for a property that may be absent (\<open>undefined\<close>).\<close>

fun truthy :: "jv option \<Rightarrow> bool" where
  "truthy None = False"
| "truthy (Some JNull) = False"
| "truthy (Some (JBool b)) = b"
| "truthy (Some (JNum n)) = (n \<noteq> 0)"
| "truthy (Some (JStr s)) = (s \<noteq> [])"
| "truthy (Some JOther) = True"

text \<open>\<open>!!s\<close> for a nullable string: the empty string is falsy.\<close>

fun truthy_str :: "string option \<Rightarrow> bool" where
  "truthy_str None = False"
| "truthy_str (Some s) = (s \<noteq> [])"

text \<open>\<open>a || b\<close> on nullable strings.\<close>

definition or_str :: "string option \<Rightarrow> string option \<Rightarrow> string option" where
  "or_str a b = (if truthy_str a then a else b)"

subsection \<open>Reference generator\<close>

text \<open>\<open>nanoid()\<close> draws 21 alphanumeric characters at random; the draw is an input of
  every operation that generates a reference.\<close>

definition generatePaymentRef :: "string \<Rightarrow> string" where
  "generatePaymentRef nanoid = ''pay_'' @ nanoid"

definition generateTransactionRef :: "string \<Rightarrow> string" where
  "generateTransactionRef nanoid = ''txn_'' @ nanoid"

subsection \<open>Prisma operations\<close>

type_synonym 'a io = "world \<Rightarrow> (error + 'a) \<times> world"

text \<open>
  Modelled from the spec: the Prisma schema is not among the sources, so what the store
  fills in on an insert follows the data model of the specification (section 3). A new
  row gets a fresh id (drawn here from the counter \<open>next_id\<close>) and the time of the
  insert as its creation time; a new payment has nothing refunded, and a new webhook log
  row counts no attempt. The environment of a new payment is a parameter of the create
  route.
\<close>

definition default_refunded_amount :: rat where
  "default_refunded_amount = 0"

definition default_attempt_count :: nat where
  "default_attempt_count = 0"

text \<open>One write against the relational store: it consults the fault oracle, and writes
  nothing when it throws.\<close>

definition prisma :: "'a io \<Rightarrow> 'a io" where
  "prisma op w =
     (case faults w of
        [] \<Rightarrow> op w
      | None # fs \<Rightarrow> op (w\<lparr>faults := fs\<rparr>)
      | Some m # fs \<Rightarrow> (Inl (Thrown m), w\<lparr>faults := fs\<rparr>))"


text \<open>\<open>prisma.payment.update({where: {id}, data})\<close>; the changed columns are given as a
  function on the row. Prisma throws when no row matches.\<close>

definition payment_update_id :: "nat \<Rightarrow> (payment \<Rightarrow> payment) \<Rightarrow> payment io" where
  "payment_update_id i f w =
     (case find (\<lambda>p. p_id p = i) (payments w) of
        None \<Rightarrow> (Inl (Thrown ''Record to update not found.''), w)
      | Some p \<Rightarrow>
          (Inr (f p), w\<lparr>payments := map (\<lambda>q. if p_id q = i then f q else q) (payments w)\<rparr>))"

text \<open>\<open>prisma.payment.update({where: {payment_ref}, data})\<close>.\<close>

definition payment_update_ref :: "string \<Rightarrow> (payment \<Rightarrow> payment) \<Rightarrow> payment io" where
  "payment_update_ref r f w =
     (case find (\<lambda>p. p_payment_ref p = r) (payments w) of
        None \<Rightarrow> (Inl (Thrown ''Record to update not found.''), w)
      | Some p \<Rightarrow>
          (Inr (f p),
           w\<lparr>payments := map (\<lambda>q. if p_payment_ref q = r then f q else q) (payments w)\<rparr>))"

text \<open>\<open>prisma.transaction.create\<close>: the store assigns the id and the creation time.\<close>

definition transaction_create ::
  "nat \<Rightarrow> string \<Rightarrow> nat \<Rightarrow> string \<Rightarrow> txn_type \<Rightarrow> string \<Rightarrow> rat \<Rightarrow> currency \<Rightarrow> string \<Rightarrow> txn io" where
  "transaction_create now tref pid mid ty st amt cur descr w =
     (let t = \<lparr>t_id = next_id w, t_transaction_ref = tref, t_payment_id = pid,
                t_merchant_id = mid, t_type = ty, t_status = st, t_amount = amt,
                t_currency = cur, t_description = descr, t_created_at = now\<rparr>
      in (Inr t, w\<lparr>transactions := transactions w @ [t], next_id := Suc (next_id w)\<rparr>))"

subsection \<open>Response envelope\<close>

text \<open>\<open>successResponse(data)\<close> without \<open>meta\<close>: the object \<open>{data}\<close>.\<close>

datatype 'a success_body = SuccessBody 'a

definition successResponse :: "'a \<Rightarrow> 'a success_body" where
  "successResponse d = SuccessBody d"

section \<open>Refund handler: \<open>POST /v1/payments/:ref/refund\<close>\<close>




section \<open>Outbound webhook dispatcher\<close>

text \<open>Decimal rendering of an id, for job names.\<close>

function string_of_nat :: "nat \<Rightarrow> string" where
  "string_of_nat n =
     (if n < 10 then [''0123456789'' ! n]
      else string_of_nat (n div 10) @ [''0123456789'' ! (n mod 10)])"
  by pat_completeness auto
termination
  by (relation "measure id") auto

declare string_of_nat.simps [simp del]

definition EVENT_VERSION :: string where
  "EVENT_VERSION = ''1.0''"

definition buildPayload :: "nat \<Rightarrow> string \<Rightarrow> payload_data \<Rightarrow> event_payload" where
  "buildPayload now event_type d =
     \<lparr>ep_api_version = EVENT_VERSION, ep_event_type = event_type, ep_created_at = now,
      ep_data = d\<rparr>"

text \<open>\<open>Number(x || 0)\<close> on a nullable decimal column.\<close>

definition num_or_zero :: "rat option \<Rightarrow> rat" where
  "num_or_zero x = (case x of None \<Rightarrow> 0 | Some v \<Rightarrow> v)"

text \<open>\<open>prisma.webhookLog.create\<close>; the attempt counter starts at the column default.\<close>

definition webhookLog_create ::
  "nat \<Rightarrow> nat \<Rightarrow> nat \<Rightarrow> string \<Rightarrow> event_payload \<Rightarrow> webhook_log io" where
  "webhookLog_create now cfg pid event_type payload w =
     (let l = \<lparr>wl_id = next_id w, wl_webhook_config_id = cfg, wl_payment_id = pid,
                wl_event_type = event_type, wl_payload = payload, wl_status = LogPending,
                wl_http_status = None, wl_response_body = None,
                wl_attempt_count = default_attempt_count,
                wl_last_attempt_at = None, wl_delivered_at = None, wl_created_at = now\<rparr>
      in (Inr l, w\<lparr>webhook_logs := webhook_logs w @ [l], next_id := Suc (next_id w)\<rparr>))"

text \<open>\<open>webhookQueue.add(name, data, {attempts: 5, backoff: exponential 5000})\<close>.\<close>

definition webhookQueue_add :: "string \<Rightarrow> webhook_job_data \<Rightarrow> world \<Rightarrow> world" where
  "webhookQueue_add name d w =
     w\<lparr>webhookQueue := webhookQueue w @
          [\<lparr>job_name = name, job_data = d, job_attempts = 5, job_backoff_delay = 5000\<rparr>]\<rparr>"

text \<open>The \<open>for\<close> loop of \<open>dispatchPaymentEvent\<close> over the subscribed configurations.\<close>

fun dispatch_loop ::
  "nat \<Rightarrow> payment \<Rightarrow> string \<Rightarrow> event_payload \<Rightarrow> webhook_config list \<Rightarrow> unit io" where
  "dispatch_loop now payment event_type payload [] w = (Inr (), w)"
| "dispatch_loop now payment event_type payload (webhook # rest) w =
     (case prisma (webhookLog_create now (wc_id webhook) (p_id payment) event_type payload) w of
        (Inl e, w1) \<Rightarrow> (Inl e, w1)
      | (Inr logRow, w1) \<Rightarrow>
          dispatch_loop now payment event_type payload rest
            (webhookQueue_add (event_type @ ''_'' @ string_of_nat (wl_id logRow))
               \<lparr>wj_webhook_config_id = wc_id webhook, wj_payment_id = p_id payment,
                wj_event_type = event_type, wj_payload = payload, wj_attempt = 1\<rparr> w1))"

text \<open>The active configurations of the owning merchant that subscribe to the event.\<close>

definition subscribedWebhooks :: "payment \<Rightarrow> string \<Rightarrow> world \<Rightarrow> webhook_config list" where
  "subscribedWebhooks payment event_type w =
     filter (\<lambda>wh. event_type \<in> set (wc_events wh) \<or> ''*'' \<in> set (wc_events wh))
       (filter (\<lambda>wh. wc_merchant_id wh = p_merchant_id payment \<and> wc_is_active wh)
          (webhook_configs w))"

definition dispatchPaymentEvent :: "nat \<Rightarrow> string \<Rightarrow> string \<Rightarrow> unit io" where
  "dispatchPaymentEvent now payment_ref event_type w =
     (case find (\<lambda>p. p_payment_ref p = payment_ref) (payments w) of
        None \<Rightarrow> (Inr (), w)
      | Some payment \<Rightarrow>
          if subscribedWebhooks payment event_type w = [] then (Inr (), w)
          else
            dispatch_loop now payment event_type
              (buildPayload now event_type
                 \<lparr>pd_payment_ref = p_payment_ref payment, pd_order_id = p_order_id payment,
                  pd_channel = p_channel payment, pd_status = p_status payment,
                  pd_amount = p_amount payment, pd_currency = p_currency payment,
                  pd_fee_amount = num_or_zero (p_fee_amount payment),
                  pd_net_amount = num_or_zero (p_net_amount payment),
                  pd_provider_transaction_id = p_provider_transaction_id payment,
                  pd_created_at = p_created_at payment,
                  pd_completed_at = p_completed_at payment,
                  pd_failed_at = p_failed_at payment,
                  pd_failure_reason = p_failure_reason payment\<rparr>)
              (subscribedWebhooks payment event_type w) w)"

subsection \<open>Delivery\<close>

text \<open>
  What \<open>axios.post\<close> meets at the merchant's endpoint: a response with its status and
  its serialised body, an Axios error without a response (timeout, refused connection),
  or an error that is not an Axios error. The signature headers are sent but do not
  influence what is recorded, so the HMAC is not modelled.
\<close>

datatype http_outcome = Response nat string | AxiosNoResponse string | OtherFailure string

text \<open>\<open>findFirst({where: {webhook_config_id, payment_id, event_type}, orderBy: {created_at:
  'desc'}})\<close>: the most recent matching row (the earliest inserted among equally recent).\<close>

definition latest_log :: "nat \<Rightarrow> nat \<Rightarrow> string \<Rightarrow> webhook_log list \<Rightarrow> webhook_log option" where
  "latest_log cfg pid event_type logs =
     foldl (\<lambda>best l. case best of
                        None \<Rightarrow> Some l
                      | Some b \<Rightarrow> if wl_created_at b < wl_created_at l then Some l else Some b)
       None
       (filter (\<lambda>l. wl_webhook_config_id l = cfg \<and> wl_payment_id l = pid \<and>
                     wl_event_type l = event_type) logs)"

text \<open>\<open>prisma.webhookLog.update\<close>; a column given as \<open>undefined\<close> is left as it is.\<close>

definition webhookLog_update ::
  "nat \<Rightarrow> log_status \<Rightarrow> nat option \<Rightarrow> string option \<Rightarrow> nat \<Rightarrow> nat \<Rightarrow> nat option \<Rightarrow> unit io" where
  "webhookLog_update i st httpStatus responseBody attempt now deliveredAt w =
     (Inr (),
      w\<lparr>webhook_logs :=
          map (\<lambda>l. if wl_id l = i
                    then l\<lparr>wl_status := st,
                           wl_http_status :=
                             (case httpStatus of None \<Rightarrow> wl_http_status l | Some h \<Rightarrow> Some h),
                           wl_response_body :=
                             (case responseBody of None \<Rightarrow> wl_response_body l | Some b \<Rightarrow> Some b),
                           wl_attempt_count := attempt,
                           wl_last_attempt_at := Some now,
                           wl_delivered_at :=
                             (case deliveredAt of None \<Rightarrow> wl_delivered_at l | Some d \<Rightarrow> Some d)\<rparr>
                    else l) (webhook_logs w)\<rparr>)"

text \<open>The \<open>finally\<close> block: update the matching log row, if there is one.\<close>

definition update_log ::
  "webhook_job_data \<Rightarrow> log_status \<Rightarrow> nat option \<Rightarrow> string option \<Rightarrow> nat \<Rightarrow> nat option \<Rightarrow> unit io" where
  "update_log d st httpStatus responseBody now deliveredAt w =
     (case latest_log (wj_webhook_config_id d) (wj_payment_id d) (wj_event_type d)
             (webhook_logs w) of
        None \<Rightarrow> (Inr (), w)
      | Some logRow \<Rightarrow>
          prisma (webhookLog_update (wl_id logRow) st httpStatus responseBody (wj_attempt d) now
                    deliveredAt) w)"

text \<open>\<open>deliverWebhook\<close>: \<open>Inr ()\<close> when it returns, \<open>Inl\<close> when it throws (and the
  queue retries). An error thrown by the \<open>finally\<close> block replaces the pending one.\<close>

definition deliverWebhook :: "nat \<Rightarrow> http_outcome \<Rightarrow> webhook_job_data \<Rightarrow> unit io" where
  "deliverWebhook now outcome d w =
     (case find (\<lambda>c. wc_id c = wj_webhook_config_id d) (webhook_configs w) of
        None \<Rightarrow> (Inr (), w)
      | Some webhookConfig \<Rightarrow>
          if \<not> wc_is_active webhookConfig then (Inr (), w)
          else
            (case outcome of
               Response status body \<Rightarrow>
                 if 200 \<le> status \<and> status < 300
                 then update_log d LogDelivered (Some status) (Some (take 500 body)) now
                        (Some now) w
                 else
                   (case update_log d LogFailed (Some status)
                           (Some (take 500 (''Request failed with status code ''
                                              @ string_of_nat status))) now None w of
                      (Inl e, w1) \<Rightarrow> (Inl e, w1)
                    | (Inr _, w1) \<Rightarrow>
                        (Inl (Thrown (''Request failed with status code ''
                                        @ string_of_nat status)), w1))
             | AxiosNoResponse msg \<Rightarrow>
                 (case update_log d LogFailed None (Some (take 500 msg)) now None w of
                    (Inl e, w1) \<Rightarrow> (Inl e, w1)
                  | (Inr _, w1) \<Rightarrow> (Inl (Thrown msg), w1))
             | OtherFailure msg \<Rightarrow>
                 (case update_log d LogFailed None None now None w of
                    (Inl e, w1) \<Rightarrow> (Inl e, w1)
                  | (Inr _, w1) \<Rightarrow> (Inl (Thrown msg), w1))))"

text \<open>
  The queue's side of a webhook job (BullMQ, section 4.D of the specification): the
  worker calls the handler with the job's data; when the handler throws, the job is run
  again after the backoff, with the same data, until the attempts of its options are
  used up. \<open>outcome k\<close> and \<open>clock k\<close> are the endpoint's answer and the time at the
  attempt that follows \<open>k\<close> failed ones. The result tells whether the job completed.
\<close>

fun run_webhook_attempts ::
  "(nat \<Rightarrow> http_outcome) \<Rightarrow> (nat \<Rightarrow> nat) \<Rightarrow> nat \<Rightarrow> nat \<Rightarrow> webhook_job_data \<Rightarrow> world
     \<Rightarrow> bool \<times> world" where
  "run_webhook_attempts outcome clock made 0 d w = (False, w)"
| "run_webhook_attempts outcome clock made (Suc left) d w =
     (case deliverWebhook (clock made) (outcome made) d w of
        (Inr _, w1) \<Rightarrow> (True, w1)
      | (Inl _, w1) \<Rightarrow> run_webhook_attempts outcome clock (Suc made) left d w1)"

definition run_webhook_job ::
  "(nat \<Rightarrow> http_outcome) \<Rightarrow> (nat \<Rightarrow> nat) \<Rightarrow> webhook_job_data job \<Rightarrow> world \<Rightarrow> bool \<times> world" where
  "run_webhook_job outcome clock j w =
     run_webhook_attempts outcome clock 0 (job_attempts j) (job_data j) w"

section \<open>Callback reconciler: \<open>updatePaymentStatus\<close> and the provider routes\<close>

text \<open>The statuses a callback can ask for (the type of \<open>newStatus\<close>).\<close>

datatype new_status = ToCompleted | ToFailed | ToCancelled | ToRefunded

fun status_of :: "new_status \<Rightarrow> payment_status" where
  "status_of ToCompleted = Completed"
| "status_of ToFailed = Failed"
| "status_of ToCancelled = Cancelled"
| "status_of ToRefunded = Refunded"

text \<open>The optional \<open>extra\<close> argument. \<open>failure_reason\<close> is kept as the value found at
  run time, since one route passes a property of the request body under a cast.\<close>

record extra =
  ex_completed_at :: "nat option"
  ex_failed_at :: "nat option"
  ex_failure_reason :: "jv option"
  ex_refunded_at :: "nat option"
  ex_refunded_amount :: "rat option"

definition no_extra :: extra where
  "no_extra = \<lparr>ex_completed_at = None, ex_failed_at = None, ex_failure_reason = None,
               ex_refunded_at = None, ex_refunded_amount = None\<rparr>"

fun channel_str :: "channel \<Rightarrow> string" where
  "channel_str Moncash = ''moncash''"
| "channel_str Natcash = ''natcash''"
| "channel_str Stripe = ''stripe''"

text \<open>\<open>x || new Date()\<close> on an optional date.\<close>

definition date_or :: "nat option \<Rightarrow> nat \<Rightarrow> nat" where
  "date_or x now = (case x of Some t \<Rightarrow> t | None \<Rightarrow> now)"

text \<open>
  \<open>updateData\<close> as the change it makes to the row. \<open>None\<close> stands for data that Prisma
  rejects before any write (a \<open>failure_reason\<close> that is neither a string nor null).
\<close>

definition updateData ::
  "nat \<Rightarrow> new_status \<Rightarrow> extra \<Rightarrow> payment \<Rightarrow> (payment \<Rightarrow> payment) option" where
  "updateData now newStatus ex payment =
     (case newStatus of
        ToCompleted \<Rightarrow>
          Some (\<lambda>p. p\<lparr>p_status := Completed,
                       p_completed_at := Some (date_or (ex_completed_at ex) now),
                       p_net_amount :=
                         Some (p_amount payment - num_or_zero (p_fee_amount payment))\<rparr>)
      | ToFailed \<Rightarrow>
          (case ex_failure_reason ex of
             None \<Rightarrow>
               Some (\<lambda>p. p\<lparr>p_status := Failed,
                            p_failed_at := Some (date_or (ex_failed_at ex) now)\<rparr>)
           | Some JNull \<Rightarrow>
               Some (\<lambda>p. p\<lparr>p_status := Failed,
                            p_failed_at := Some (date_or (ex_failed_at ex) now),
                            p_failure_reason := None\<rparr>)
           | Some (JStr r) \<Rightarrow>
               Some (\<lambda>p. p\<lparr>p_status := Failed,
                            p_failed_at := Some (date_or (ex_failed_at ex) now),
                            p_failure_reason := Some r\<rparr>)
           | Some _ \<Rightarrow> None)
      | ToCancelled \<Rightarrow> Some (\<lambda>p. p\<lparr>p_status := Cancelled\<rparr>)
      | ToRefunded \<Rightarrow>
          Some (\<lambda>p. p\<lparr>p_status := Refunded,
                       p_refunded_at := Some (date_or (ex_refunded_at ex) now),
                       p_refunded_amount :=
                         (case ex_refunded_amount ex of
                            None \<Rightarrow> p_refunded_amount p
                          | Some r \<Rightarrow> if r \<noteq> 0 then r else p_refunded_amount p)\<rparr>))"

definition customer_update_id :: "nat \<Rightarrow> (customer \<Rightarrow> customer) \<Rightarrow> customer io" where
  "customer_update_id i f w =
     (case find (\<lambda>c. c_id c = i) (customers w) of
        None \<Rightarrow> (Inl (Thrown ''Record to update not found.''), w)
      | Some c \<Rightarrow>
          (Inr (f c), w\<lparr>customers := map (\<lambda>q. if c_id q = i then f q else q) (customers w)\<rparr>))"

definition customer_create :: "customer \<Rightarrow> customer io" where
  "customer_create c w =
     (let row = c\<lparr>c_id := next_id w\<rparr>
      in (Inr row, w\<lparr>customers := customers w @ [row], next_id := Suc (next_id w)\<rparr>))"

text \<open>The customer synchronisation of a completed payment that carries an email or a
  phone: find the customer of the merchant and environment by either identifier, update
  or create it, then link the payment.\<close>

definition sync_customer :: "nat \<Rightarrow> payment \<Rightarrow> unit io" where
  "sync_customer now payment w =
     (case (case find (\<lambda>c. c_merchant_id c = p_merchant_id payment \<and>
                            c_environment c = p_environment payment \<and>
                            ((truthy_str (p_customer_email payment) \<and>
                              c_email c = p_customer_email payment) \<or>
                             (truthy_str (p_customer_phone payment) \<and>
                              c_phone c = p_customer_phone payment)))
                   (customers w) of
              Some customer \<Rightarrow>
                prisma (customer_update_id (c_id customer)
                          (\<lambda>c. c\<lparr>c_total_spent := c_total_spent c + p_amount payment,
                                  c_payment_count := c_payment_count c + 1,
                                  c_last_payment_at := now,
                                  c_name := or_str (c_name customer)
                                              (or_str (p_customer_name payment) None)\<rparr>)) w
            | None \<Rightarrow>
                prisma (customer_create
                          \<lparr>c_id = 0, c_merchant_id = p_merchant_id payment,
                           c_environment = p_environment payment,
                           c_email = p_customer_email payment,
                           c_phone = p_customer_phone payment,
                           c_name = p_customer_name payment,
                           c_total_spent = p_amount payment, c_payment_count = 1,
                           c_first_payment_at = now, c_last_payment_at = now\<rparr>) w) of
        (Inl e, w1) \<Rightarrow> (Inl e, w1)
      | (Inr customer, w1) \<Rightarrow>
          (case prisma (payment_update_id (p_id payment)
                          (\<lambda>p. p\<lparr>p_customer_id := Some (c_id customer)\<rparr>)) w1 of
             (Inl e, w2) \<Rightarrow> (Inl e, w2)
           | (Inr _, w2) \<Rightarrow> (Inr (), w2)))"

text \<open>\<open>updatePaymentStatus\<close>: the payment reference, or \<open>None\<close> for \<open>null\<close>. Each
  \<open>await prisma...\<close> is a write of its own.\<close>

definition updatePaymentStatus ::
  "nat \<Rightarrow> string \<Rightarrow> string \<Rightarrow> new_status \<Rightarrow> extra \<Rightarrow> string option io" where
  "updatePaymentStatus now nanoid provider_transaction_id newStatus ex w =
     (case find (\<lambda>p. p_provider_transaction_id p = Some provider_transaction_id) (payments w) of
        None \<Rightarrow> (Inr None, w)
      | Some payment \<Rightarrow>
          if p_status payment = status_of newStatus then (Inr (Some (p_payment_ref payment)), w)
          else
            (case updateData now newStatus ex payment of
               None \<Rightarrow> (Inl (Thrown ''Invalid value provided.''), w)
             | Some change \<Rightarrow>
                 (case prisma (payment_update_id (p_id payment) change) w of
                    (Inl e, w1) \<Rightarrow> (Inl e, w1)
                  | (Inr _, w1) \<Rightarrow>
                      if newStatus = ToCompleted then
                        (case prisma (transaction_create now (generateTransactionRef nanoid)
                                        (p_id payment) (p_merchant_id payment) Credit
                                        ''completed'' (p_amount payment) (p_currency payment)
                                        (''Paiement '' @ channel_str (p_channel payment) @ '' ''
                                           @ [CHR 0xE2, CHR 0x80, CHR 0x94] @ '' ''
                                           @ p_payment_ref payment)) w1 of
                           (Inl e, w2) \<Rightarrow> (Inl e, w2)
                         | (Inr _, w2) \<Rightarrow>
                             if truthy_str (p_customer_email payment) \<or>
                                truthy_str (p_customer_phone payment)
                             then (case sync_customer now payment w2 of
                                     (Inl e, w3) \<Rightarrow> (Inl e, w3)
                                   | (Inr _, w3) \<Rightarrow> (Inr (Some (p_payment_ref payment)), w3))
                             else (Inr (Some (p_payment_ref payment)), w2))
                      else (Inr (Some (p_payment_ref payment)), w1))))"

text \<open>The body of the \<open>try\<close> block the three routes share: update, then dispatch the
  event when a reference came back. The \<open>catch\<close> only logs, so what remains of a run
  that threw is the store as the throw left it.\<close>

definition update_and_dispatch ::
  "nat \<Rightarrow> string \<Rightarrow> string \<Rightarrow> new_status \<Rightarrow> extra \<Rightarrow> string \<Rightarrow> world \<Rightarrow> world" where
  "update_and_dispatch now nanoid tid newStatus ex event w =
     (case updatePaymentStatus now nanoid tid newStatus ex w of
        (Inl e, w1) \<Rightarrow> w1
      | (Inr None, w1) \<Rightarrow> w1
      | (Inr (Some payment_ref), w1) \<Rightarrow> snd (dispatchPaymentEvent now payment_ref event w1))"

datatype wh_body = Received | ErrorBody string

subsection \<open>Stripe\<close>

text \<open>The fields of a verified Stripe event that the route reads.\<close>

record stripe_event =
  se_type :: string
  se_id :: string
  se_object_id :: string
  se_last_payment_error_message :: "string option"
  se_payment_intent :: "string option"
  se_amount_refunded :: rat

text \<open>\<open>stripeService.validateWebhookSignature\<close>. The HMAC check of the Stripe SDK with
  the configured secret is the parameter \<open>constructEvent\<close>, \<open>None\<close> when it throws.\<close>

definition validateWebhookSignature ::
  "(string \<Rightarrow> string \<Rightarrow> stripe_event option) \<Rightarrow> string \<Rightarrow> string \<Rightarrow> error + stripe_event" where
  "validateWebhookSignature constructEvent payload signature =
     (case constructEvent payload signature of
        None \<Rightarrow> Inl (ApiError TOKEN_INVALID)
      | Some ev \<Rightarrow> Inr ev)"

text \<open>The handler of \<open>POST /v1/webhooks/stripe\<close>: the answer (status and body) and
  the store it leaves.\<close>

definition stripeWebhook ::
  "(string \<Rightarrow> string \<Rightarrow> stripe_event option) \<Rightarrow> nat \<Rightarrow> string \<Rightarrow> string option \<Rightarrow> string
     \<Rightarrow> world \<Rightarrow> (nat \<times> wh_body) \<times> world" where
  "stripeWebhook constructEvent now nanoid signature rawBody w =
     (case signature of
        None \<Rightarrow> ((400, ErrorBody ''Signature manquante''), w)
      | Some sg \<Rightarrow>
          if sg = [] then ((400, ErrorBody ''Signature manquante''), w)
          else
            (case validateWebhookSignature constructEvent rawBody sg of
               Inl e \<Rightarrow> ((400, ErrorBody ''Signature invalide''), w)
             | Inr stripeEvent \<Rightarrow>
                 ((200, Received),
                  (if se_type stripeEvent = ''payment_intent.succeeded'' then
                     update_and_dispatch now nanoid (se_object_id stripeEvent) ToCompleted
                       (no_extra\<lparr>ex_completed_at := Some now\<rparr>) ''payment.succeeded'' w
                   else if se_type stripeEvent = ''payment_intent.payment_failed'' then
                     update_and_dispatch now nanoid (se_object_id stripeEvent) ToFailed
                       (no_extra\<lparr>ex_failed_at := Some now,
                                 ex_failure_reason :=
                                   map_option JStr
                                     (or_str (se_last_payment_error_message stripeEvent)
                                        (Some ([CHR 0xC3, CHR 0x89]
                                                 @ ''chec de paiement Stripe'')))\<rparr>)
                       ''payment.failed'' w
                   else if se_type stripeEvent = ''payment_intent.canceled'' then
                     update_and_dispatch now nanoid (se_object_id stripeEvent) ToCancelled
                       no_extra ''payment.cancelled'' w
                   else if se_type stripeEvent = ''charge.refunded'' then
                     (case se_payment_intent stripeEvent of
                        None \<Rightarrow> w
                      | Some intent \<Rightarrow>
                          if intent = [] then w
                          else update_and_dispatch now nanoid intent ToRefunded
                                 (no_extra\<lparr>ex_refunded_at := Some now,
                                           ex_refunded_amount :=
                                             Some (se_amount_refunded stripeEvent / 100)\<rparr>)
                                 ''payment.refunded'' w)
                   else w))))"

subsection \<open>MonCash\<close>

text \<open>The handler of \<open>POST /v1/webhooks/moncash\<close>. It checks the two identifiers and
  nothing else. A \<open>transactionId\<close> that is truthy but not a string makes the Prisma
  query throw inside the \<open>try\<close>.\<close>

definition moncashWebhook ::
  "nat \<Rightarrow> string \<Rightarrow> json_object \<Rightarrow> world \<Rightarrow> (nat \<times> wh_body) \<times> world" where
  "moncashWebhook now nanoid body w =
     (if \<not> truthy (body ''transactionId'') \<or> \<not> truthy (body ''orderId'')
      then ((400, ErrorBody ''Payload invalide''), w)
      else
        ((200, Received),
         (case body ''transactionId'' of
            Some (JStr transactionId) \<Rightarrow>
              update_and_dispatch now nanoid transactionId ToCompleted
                (no_extra\<lparr>ex_completed_at := Some now\<rparr>) ''payment.succeeded'' w
          | _ \<Rightarrow> w)))"

text \<open>\<open>monCashService.validateWebhookPayload\<close> of the MonCash adapter.\<close>

definition validateWebhookPayload :: "json_object \<Rightarrow> bool" where
  "validateWebhookPayload payload =
     (truthy (payload ''transactionId'') \<and> truthy (payload ''orderId'') \<and>
      (case payload ''amount'' of Some (JNum _) \<Rightarrow> True | _ \<Rightarrow> False))"

subsection \<open>NatCash\<close>

text \<open>\<open>toUpperCase\<close> on the ASCII letters.\<close>

definition toUpperCase :: "string \<Rightarrow> string" where
  "toUpperCase s =
     map (\<lambda>c. if (97::nat) \<le> of_char c \<and> of_char c \<le> (122::nat)
               then ''ABCDEFGHIJKLMNOPQRSTUVWXYZ'' ! (of_char c - (97::nat)) else c) s"

text \<open>\<open>(body.status as string || '').toUpperCase()\<close>: \<open>None\<close> when the call throws
  because the value is truthy and not a string.\<close>

definition natStatus :: "jv option \<Rightarrow> string option" where
  "natStatus v =
     (if \<not> truthy v then Some (toUpperCase [])
      else (case v of Some (JStr s) \<Rightarrow> Some (toUpperCase s) | _ \<Rightarrow> None))"

text \<open>The handler of \<open>POST /v1/webhooks/natcash\<close>.\<close>

definition natcashWebhook ::
  "nat \<Rightarrow> string \<Rightarrow> json_object \<Rightarrow> world \<Rightarrow> (nat \<times> wh_body) \<times> world" where
  "natcashWebhook now nanoid body w =
     (if \<not> truthy (body ''transactionId'')
      then ((400, ErrorBody ''Payload invalide''), w)
      else
        ((200, Received),
         (case natStatus (body ''status'') of
            None \<Rightarrow> w
          | Some st \<Rightarrow>
              (case body ''transactionId'' of
                 Some (JStr transactionId) \<Rightarrow>
                   if st = ''SUCCESS''
                   then update_and_dispatch now nanoid transactionId ToCompleted
                          (no_extra\<lparr>ex_completed_at := Some now\<rparr>) ''payment.succeeded'' w
                   else update_and_dispatch now nanoid transactionId ToFailed
                          (no_extra\<lparr>ex_failed_at := Some now,
                                    ex_failure_reason := body ''errorMessage''\<rparr>)
                          ''payment.failed'' w
               | _ \<Rightarrow> w))))"

section \<open>Payment worker and its queue\<close>

record provider_result =
  pr_provider_transaction_id :: string
  pr_redirect_url :: string

text \<open>\<open>queue.add(name, data, {attempts: 3, backoff: exponential 2000})\<close> on the queue
  of the channel.\<close>

definition queuePayment :: "channel \<Rightarrow> payment_job_data \<Rightarrow> world \<Rightarrow> world" where
  "queuePayment ch d w =
     (let j = \<lparr>job_name = ''pay_'' @ channel_str ch @ ''_'' @ pj_payment_ref d, job_data = d,
                job_attempts = 3, job_backoff_delay = 2000\<rparr>
      in case ch of
           Moncash \<Rightarrow> w\<lparr>monCashQueue := monCashQueue w @ [j]\<rparr>
         | Natcash \<Rightarrow> w\<lparr>natCashQueue := natCashQueue w @ [j]\<rparr>
         | Stripe \<Rightarrow> w\<lparr>stripeQueue := stripeQueue w @ [j]\<rparr>)"

text \<open>The \<open>catch\<close> block of \<open>processPayment\<close>: mark the payment failed with the error's
  message, dispatch \<open>payment.failed\<close> (its own errors are swallowed) and rethrow.\<close>

definition processPayment_catch :: "nat \<Rightarrow> string \<Rightarrow> error \<Rightarrow> unit io" where
  "processPayment_catch now payment_ref err w =
     (case prisma (payment_update_ref payment_ref
                     (\<lambda>p. p\<lparr>p_status := Failed, p_failed_at := Some now,
                             p_failure_reason := Some (message err)\<rparr>)) w of
        (Inl e, w1) \<Rightarrow> (Inl e, w1)
      | (Inr _, w1) \<Rightarrow> (Inl err, snd (dispatchPaymentEvent now payment_ref ''payment.failed'' w1)))"

text \<open>\<open>processPayment\<close>. What the provider adapter answers (a result, or the error it
  throws) is the input \<open>outcome\<close>.\<close>

definition processPayment ::
  "nat \<Rightarrow> (error + provider_result) \<Rightarrow> payment_job_data \<Rightarrow> unit io" where
  "processPayment now outcome d w =
     (case prisma (payment_update_ref (pj_payment_ref d) (\<lambda>p. p\<lparr>p_status := Processing\<rparr>)) w of
        (Inl e, w1) \<Rightarrow> (Inl e, w1)
      | (Inr _, w1) \<Rightarrow>
          (case outcome of
             Inl err \<Rightarrow> processPayment_catch now (pj_payment_ref d) err w1
           | Inr result \<Rightarrow>
               (case prisma (payment_update_ref (pj_payment_ref d)
                               (\<lambda>p. p\<lparr>p_provider_transaction_id :=
                                         Some (pr_provider_transaction_id result),
                                       p_provider_redirect_url :=
                                         Some (pr_redirect_url result)\<rparr>)) w1 of
                  (Inl e, w2) \<Rightarrow> processPayment_catch now (pj_payment_ref d) e w2
                | (Inr _, w2) \<Rightarrow> (Inr (), w2))))"

text \<open>
  The queue's side of a payment job, as for webhook jobs: the handler is called again
  with the same data while it throws and attempts are left. A job whose attempts are used
  up stays in the failed set of its own queue (\<open>removeOnFail: false\<close>); the only listener
  on \<open>failed\<close> writes a log line.
\<close>

fun run_payment_attempts ::
  "(nat \<Rightarrow> error + provider_result) \<Rightarrow> (nat \<Rightarrow> nat) \<Rightarrow> nat \<Rightarrow> nat \<Rightarrow> payment_job_data \<Rightarrow> world
     \<Rightarrow> bool \<times> world" where
  "run_payment_attempts outcome clock made 0 d w = (False, w)"
| "run_payment_attempts outcome clock made (Suc left) d w =
     (case processPayment (clock made) (outcome made) d w of
        (Inr _, w1) \<Rightarrow> (True, w1)
      | (Inl _, w1) \<Rightarrow> run_payment_attempts outcome clock (Suc made) left d w1)"

definition run_payment_job ::
  "(nat \<Rightarrow> error + provider_result) \<Rightarrow> (nat \<Rightarrow> nat) \<Rightarrow> payment_job_data job \<Rightarrow> world
     \<Rightarrow> bool \<times> world" where
  "run_payment_job outcome clock j w =
     run_payment_attempts outcome clock 0 (job_attempts j) (job_data j) w"

section \<open>Create payment: \<open>POST /v1/payments\<close>\<close>

fun FEE_RATES :: "channel \<Rightarrow> rat" where
  "FEE_RATES Moncash = 25 / 1000"
| "FEE_RATES Natcash = 25 / 1000"
| "FEE_RATES Stripe = 35 / 1000"

text \<open>\<open>parseFloat(x.toFixed(2))\<close>: the nearest multiple of 0.01, the larger one of two
  equally near, on the absolute value.\<close>

definition toFixed2 :: "rat \<Rightarrow> rat" where
  "toFixed2 x =
     (if x < 0 then - (of_int \<lfloor>(- x) * 100 + 1 / 2\<rfloor> / 100)
      else of_int \<lfloor>x * 100 + 1 / 2\<rfloor> / 100)"

record create_input =
  ci_amount :: rat
  ci_currency :: currency
  ci_channel :: channel
  ci_order_id :: "string option"
  ci_description :: "string option"
  ci_customer_email :: "string option"
  ci_customer_phone :: "string option"
  ci_customer_name :: "string option"

text \<open>An optional string property: absent, a string, or invalid.\<close>

fun opt_string :: "jv option \<Rightarrow> string option option" where
  "opt_string None = Some None"
| "opt_string (Some (JStr s)) = Some (Some s)"
| "opt_string (Some _) = None"

definition parse_currency :: "jv option \<Rightarrow> currency option" where
  "parse_currency v =
     (if v = Some (JStr ''HTG'') then Some HTG
      else if v = Some (JStr ''USD'') then Some USD else None)"

definition parse_channel :: "jv option \<Rightarrow> channel option" where
  "parse_channel v =
     (if v = Some (JStr ''moncash'') then Some Moncash
      else if v = Some (JStr ''natcash'') then Some Natcash
      else if v = Some (JStr ''stripe'') then Some Stripe else None)"

definition parse_amount :: "jv option \<Rightarrow> rat option" where
  "parse_amount v =
     (case v of
        Some (JNum a) \<Rightarrow> if 0 < a \<and> a \<le> 10000000 then Some a else None
      | _ \<Rightarrow> None)"

definition max_len :: "nat \<Rightarrow> string option \<Rightarrow> bool" where
  "max_len n s = (case s of None \<Rightarrow> True | Some t \<Rightarrow> length t \<le> n)"

text \<open>\<open>createPaymentSchema\<close>. The format check of \<open>z.string().email()\<close> is the
  parameter \<open>is_email\<close>.\<close>

definition createPaymentSchema :: "(string \<Rightarrow> bool) \<Rightarrow> json_object \<Rightarrow> create_input option" where
  "createPaymentSchema is_email body =
     Option.bind (parse_amount (body ''amount'')) (\<lambda>amount.
     Option.bind (parse_currency (body ''currency'')) (\<lambda>cur.
     Option.bind (parse_channel (body ''channel'')) (\<lambda>ch.
     Option.bind (opt_string (body ''order_id'')) (\<lambda>order_id.
     Option.bind (opt_string (body ''description'')) (\<lambda>description.
     Option.bind (opt_string (body ''customer_email'')) (\<lambda>customer_email.
     Option.bind (opt_string (body ''customer_phone'')) (\<lambda>customer_phone.
     Option.bind (opt_string (body ''customer_name'')) (\<lambda>customer_name.
       if max_len 255 order_id \<and> max_len 500 description \<and>
          (case customer_email of None \<Rightarrow> True | Some e \<Rightarrow> is_email e)
       then Some \<lparr>ci_amount = amount, ci_currency = cur, ci_channel = ch,
                  ci_order_id = order_id, ci_description = description,
                  ci_customer_email = customer_email, ci_customer_phone = customer_phone,
                  ci_customer_name = customer_name\<rparr>
       else None))))))))"

text \<open>Redis \<open>GET\<close> and \<open>SET key value EX seconds\<close>.\<close>

definition redis_get :: "nat \<Rightarrow> string \<Rightarrow> world \<Rightarrow> create_response option" where
  "redis_get now k w =
     (case redis w k of
        None \<Rightarrow> None
      | Some (v, expiry) \<Rightarrow> if now < expiry then Some v else None)"

definition redis_set_ex :: "nat \<Rightarrow> string \<Rightarrow> create_response \<Rightarrow> nat \<Rightarrow> world \<Rightarrow> world" where
  "redis_set_ex now k v seconds w = w\<lparr>redis := (redis w)(k \<mapsto> (v, now + seconds * 1000))\<rparr>"

text \<open>The cache key of a request: none when the \<open>Idempotency-Key\<close> header is absent
  or empty (\<open>if (idempotencyKey)\<close>).\<close>

definition cache_key :: "string option \<Rightarrow> string option" where
  "cache_key idempotencyKey =
     (case idempotencyKey of
        None \<Rightarrow> None
      | Some k \<Rightarrow> if k = [] then None else Some (''idempotency:'' @ k))"

text \<open>\<open>prisma.payment.create\<close>: the store assigns the id.\<close>

definition payment_create :: "payment \<Rightarrow> payment io" where
  "payment_create p w =
     (let row = p\<lparr>p_id := next_id w\<rparr>
      in (Inr row, w\<lparr>payments := payments w @ [row], next_id := Suc (next_id w)\<rparr>))"

text \<open>
  The handler of \<open>POST /v1/payments\<close>, after authentication has established
  \<open>merchantId\<close>. \<open>environment\<close> is the column default of the schema. The cached value
  is the response object: it is plain data (numbers, strings, null), on which
  \<open>JSON.parse\<close> undoes \<open>JSON.stringify\<close>, so that equal objects are sent as equal
  bytes.
\<close>

definition createRoute ::
  "(string \<Rightarrow> bool) \<Rightarrow> string \<Rightarrow> nat \<Rightarrow> string \<Rightarrow> string \<Rightarrow> string option \<Rightarrow> json_object
     \<Rightarrow> (nat \<times> create_response success_body) io" where
  "createRoute is_email environment now nanoid merchantId idempotencyKey body w =
     (case createPaymentSchema is_email body of
        None \<Rightarrow> (Inl (ApiError VALIDATION_ERROR), w)
      | Some inp \<Rightarrow>
          (case (case cache_key idempotencyKey of
                   None \<Rightarrow> None
                 | Some k \<Rightarrow> redis_get now k w) of
             Some existing \<Rightarrow> (Inr (200, successResponse existing), w)
           | None \<Rightarrow>
               let feeRate = FEE_RATES (ci_channel inp);
                   feeAmount = toFixed2 (ci_amount inp * feeRate);
                   netAmount = toFixed2 (ci_amount inp - feeAmount);
                   paymentRef = generatePaymentRef nanoid;
                   expiresAt = now + 30 * 60 * 1000
               in (case prisma (payment_create
                        \<lparr>p_id = 0, p_payment_ref = paymentRef, p_merchant_id = merchantId,
                         p_environment = environment, p_order_id = ci_order_id inp,
                         p_idempotency_key = or_str idempotencyKey None,
                         p_channel = ci_channel inp, p_status = Pending,
                         p_amount = ci_amount inp, p_currency = ci_currency inp,
                         p_fee_amount = Some feeAmount, p_fee_rate = Some feeRate,
                         p_net_amount = Some netAmount,
                         p_refunded_amount = default_refunded_amount,
                         p_description = ci_description inp,
                         p_customer_email = ci_customer_email inp,
                         p_customer_phone = ci_customer_phone inp,
                         p_customer_name = ci_customer_name inp, p_customer_id = None,
                         p_provider_transaction_id = None, p_provider_redirect_url = None,
                         p_expires_at = Some expiresAt, p_completed_at = None,
                         p_failed_at = None, p_refunded_at = None, p_failure_reason = None,
                         p_created_at = now\<rparr>) w of
                     (Inl e, w1) \<Rightarrow> (Inl e, w1)
                   | (Inr payment, w1) \<Rightarrow>
                       let w2 = queuePayment (ci_channel inp)
                                  \<lparr>pj_payment_ref = paymentRef, pj_merchant_id = merchantId,
                                   pj_amount = ci_amount inp, pj_currency = ci_currency inp,
                                   pj_order_id = ci_order_id inp,
                                   pj_description = ci_description inp,
                                   pj_customer_phone = ci_customer_phone inp,
                                   pj_customer_email = ci_customer_email inp\<rparr> w1;
                           response =
                             \<lparr>cr_payment_ref = p_payment_ref payment,
                              cr_channel = p_channel payment, cr_status = p_status payment,
                              cr_amount = p_amount payment, cr_currency = p_currency payment,
                              cr_fee_amount = num_or_zero (p_fee_amount payment),
                              cr_net_amount = num_or_zero (p_net_amount payment),
                              cr_description = p_description payment,
                              cr_redirect_url = None, cr_expires_at = p_expires_at payment,
                              cr_created_at = p_created_at payment\<rparr>;
                           w3 = (case cache_key idempotencyKey of
                                   None \<Rightarrow> w2
                                 | Some k \<Rightarrow> redis_set_ex now k response (24 * 60 * 60) w2)
                       in (Inr (201, successResponse response), w3))))"

section \<open>A concrete store\<close>

text \<open>
  One merchant \<open>m1\<close> with one MonCash payment of 100 HTG that the provider knows as
  \<open>ABC\<close>, and one active webhook configuration subscribed to every event. The status of
  the payment and the fault oracle are left open.
\<close>

definition example_payment :: "payment_status \<Rightarrow> payment" where
  "example_payment st =
     \<lparr>p_id = 1, p_payment_ref = ''pay_A'', p_merchant_id = ''m1'', p_environment = ''live'',
      p_order_id = Some ''O1'', p_idempotency_key = None, p_channel = Moncash, p_status = st,
      p_amount = 100, p_currency = HTG, p_fee_amount = Some (5 / 2),
      p_fee_rate = Some (25 / 1000), p_net_amount = Some (195 / 2), p_refunded_amount = 0,
      p_description = None, p_customer_email = None, p_customer_phone = None,
      p_customer_name = None, p_customer_id = None,
      p_provider_transaction_id = Some ''ABC'', p_provider_redirect_url = None,
      p_expires_at = Some 1800000, p_completed_at = None, p_failed_at = None,
      p_refunded_at = None, p_failure_reason = None, p_created_at = 0\<rparr>"

definition example_config :: webhook_config where
  "example_config =
     \<lparr>wc_id = 7, wc_merchant_id = ''m1'', wc_url = ''https://merchant.example/hook'',
      wc_events = [''*''], wc_secret = ''s'', wc_is_active = True\<rparr>"

definition example_world :: "payment_status \<Rightarrow> string option list \<Rightarrow> world" where
  "example_world st fs =
     \<lparr>payments = [example_payment st], transactions = [], customers = [],
      webhook_configs = [example_config], webhook_logs = [], next_id = 10, faults = fs,
      redis = Map.empty, monCashQueue = [], natCashQueue = [], stripeQueue = [],
      dlqQueue = [], webhookQueue = []\<rparr>"


definition moncash_body :: json_object where
  "moncash_body = [''transactionId'' \<mapsto> JStr ''ABC'', ''orderId'' \<mapsto> JStr ''O1'',
                   ''amount'' \<mapsto> JNum 100]"

definition natcash_body :: json_object where
  "natcash_body = [''transactionId'' \<mapsto> JStr ''ABC'', ''status'' \<mapsto> JStr ''success'']"

definition natcash_failed_body :: json_object where
  "natcash_failed_body = [''transactionId'' \<mapsto> JStr ''ABC'', ''status'' \<mapsto> JStr ''FAILED'']"

definition moncash_body_without_amount :: json_object where
  "moncash_body_without_amount = [''transactionId'' \<mapsto> JStr ''ABC'', ''orderId'' \<mapsto> JStr ''O1'']"

text \<open>A Stripe event for the payment and a signature check that accepts one signature.\<close>

definition example_stripe_event :: stripe_event where
  "example_stripe_event =
     \<lparr>se_type = ''payment_intent.succeeded'', se_id = ''evt_1'', se_object_id = ''ABC'',
      se_last_payment_error_message = None, se_payment_intent = None, se_amount_refunded = 0\<rparr>"

definition example_constructEvent :: "string \<Rightarrow> string \<Rightarrow> stripe_event option" where
  "example_constructEvent rawBody signature =
     (if signature = ''t=1,v1=ok'' then Some example_stripe_event else None)"

definition create_body :: "rat \<Rightarrow> json_object" where
  "create_body a = [''amount'' \<mapsto> JNum a, ''currency'' \<mapsto> JStr ''HTG'',
                    ''channel'' \<mapsto> JStr ''moncash'']"

text \<open>A stand-in for the email format check.\<close>

definition example_is_email :: "string \<Rightarrow> bool" where
  "example_is_email e = (CHR ''@'' \<in> set e)"

text \<open>The store after \<open>payment.succeeded\<close> has been dispatched for the completed
  payment, a merchant endpoint that answers 500 four times and then 200, and a clock for
  the attempts.\<close>

definition example_clock :: "nat \<Rightarrow> nat" where
  "example_clock k = 6000 + 1000 * k"

definition dispatched_world :: world where
  "dispatched_world =
     snd (dispatchPaymentEvent 5000 ''pay_A'' ''payment.succeeded'' (example_world Completed []))"

definition four_failures_then_ok :: "nat \<Rightarrow> http_outcome" where
  "four_failures_then_ok k = (if k < 4 then Response 500 ''error'' else Response 200 ''{}'')"

text \<open>The store after the payment job of the pending payment has been queued, and a
  provider adapter that throws \<open>PROVIDER_ERROR\<close> at every attempt.\<close>

definition example_job_data :: payment_job_data where
  "example_job_data =
     \<lparr>pj_payment_ref = ''pay_A'', pj_merchant_id = ''m1'', pj_amount = 100, pj_currency = HTG,
      pj_order_id = Some ''O1'', pj_description = None, pj_customer_phone = None,
      pj_customer_email = None\<rparr>"

definition queued_world :: world where
  "queued_world = queuePayment Moncash example_job_data (example_world Pending [])"

definition provider_always_fails :: "nat \<Rightarrow> error + provider_result" where
  "provider_always_fails k = Inl (ApiError PROVIDER_ERROR)"

section \<open>The specification's state machine\<close>

text \<open>
  The transition graph as the specification words it (section 4.E): pending to
  processing, processing to completed, failed, cancelled or expired, pending to expired,
  completed to partially refunded or refunded, partially refunded to refunded. It is
  written from the specification, to be compared with what the handlers do.
\<close>

fun spec_transition :: "payment_status \<Rightarrow> payment_status \<Rightarrow> bool" where
  "spec_transition Pending Processing = True"
| "spec_transition Pending Expired = True"
| "spec_transition Processing Completed = True"
| "spec_transition Processing Failed = True"
| "spec_transition Processing Cancelled = True"
| "spec_transition Processing Expired = True"
| "spec_transition Completed PartiallyRefunded = True"
| "spec_transition Completed Refunded = True"
| "spec_transition PartiallyRefunded Refunded = True"
| "spec_transition _ _ = False"

section \<open>The specification's fee relation\<close>



text \<open>The columns the fee relation reads.\<close>

definition fee_view :: "payment \<Rightarrow> rat \<times> channel \<times> rat option \<times> rat option" where
  "fee_view p = (p_amount p, p_channel p, p_fee_amount p, p_net_amount p)"

section \<open>Verification\<close>

subsection \<open>Auxiliary facts\<close>

lemma prisma_no_faults: "faults w = [] \<Longrightarrow> prisma op w = op w"
  by (simp add: prisma_def)

lemma find_id_of_find:
  "find P xs = Some x \<Longrightarrow> \<exists>y. find (\<lambda>p. p_id p = p_id x) xs = Some y"
  by (cases "find (\<lambda>p. p_id p = p_id x) xs") (auto simp: find_None_iff find_Some_iff)

text \<open>A write either runs against the store with the oracle advanced, or throws and
  advances the oracle.\<close>

lemma prisma_result:
  assumes "prisma op w = (r, w')"
  obtains fs where "op (w\<lparr>faults := fs\<rparr>) = (r, w')"
    | fs m where "r = Inl (Thrown m)" and "w' = w\<lparr>faults := fs\<rparr>"
proof (cases "faults w")
  case Nil
  then have eq: "w\<lparr>faults := []\<rparr> = w"
    by (cases w) simp
  have "op w = (r, w')"
    using assms Nil by (simp add: prisma_def)
  then have "op (w\<lparr>faults := []\<rparr>) = (r, w')"
    unfolding eq .
  then show ?thesis by (rule that(1))
next
  case (Cons a fs)
  show ?thesis
  proof (cases a)
    case None
    then have "op (w\<lparr>faults := fs\<rparr>) = (r, w')"
      using assms Cons by (simp add: prisma_def)
    then show ?thesis by (rule that(1))
  next
    case (Some m)
    then have "r = Inl (Thrown m)" and "w' = w\<lparr>faults := fs\<rparr>"
      using assms Cons by (auto simp: prisma_def)
    then show ?thesis by (rule that(2))
  qed
qed

subsection \<open>Refund handler\<close>



subsection \<open>Evaluation on the concrete store\<close>

lemmas example_defs = example_world_def example_payment_def example_config_def moncash_body_def
  natcash_body_def example_stripe_event_def example_constructEvent_def
  moncash_body_without_amount_def

lemmas eval_defs = moncashWebhook_def natcashWebhook_def stripeWebhook_def
  validateWebhookSignature_def natStatus_def toUpperCase_def
  update_and_dispatch_def updatePaymentStatus_def
  updateData_def prisma_def payment_update_id_def transaction_create_def sync_customer_def
  dispatchPaymentEvent_def subscribedWebhooks_def buildPayload_def webhookLog_create_def
  webhookQueue_add_def generateTransactionRef_def date_or_def num_or_zero_def no_extra_def
  default_attempt_count_def string_of_nat.simps Let_def

subsection \<open>The dispatcher leaves payments, ledger and customers alone\<close>

lemma dispatch_loop_rows:
  "payments (snd (dispatch_loop now p ev pl whs w)) = payments w
   \<and> transactions (snd (dispatch_loop now p ev pl whs w)) = transactions w
   \<and> customers (snd (dispatch_loop now p ev pl whs w)) = customers w
   \<and> dlqQueue (snd (dispatch_loop now p ev pl whs w)) = dlqQueue w"
proof (induction whs arbitrary: w)
  case Nil
  show ?case by simp
next
  case (Cons wh whs)
  show ?case
    by (simp add: prisma_def webhookLog_create_def webhookQueue_add_def Let_def Cons.IH
        split: list.splits option.splits)
qed

lemma dispatchPaymentEvent_rows:
  "payments (snd (dispatchPaymentEvent now r ev w)) = payments w
   \<and> transactions (snd (dispatchPaymentEvent now r ev w)) = transactions w
   \<and> customers (snd (dispatchPaymentEvent now r ev w)) = customers w
   \<and> dlqQueue (snd (dispatchPaymentEvent now r ev w)) = dlqQueue w"
  by (simp add: dispatchPaymentEvent_def dispatch_loop_rows split: option.splits)




subsection \<open>Callbacks on a payment already at the target status\<close>

lemma updatePaymentStatus_same_status:
  assumes "find (\<lambda>p. p_provider_transaction_id p = Some tid) (payments w) = Some payment"
      and "p_status payment = status_of newStatus"
  shows "updatePaymentStatus now nanoid tid newStatus ex w = (Inr (Some (p_payment_ref payment)), w)"
  using assms by (simp add: updatePaymentStatus_def)

lemma update_and_dispatch_same_status:
  assumes "find (\<lambda>p. p_provider_transaction_id p = Some tid) (payments w) = Some payment"
      and "p_status payment = status_of newStatus"
  shows "update_and_dispatch now nanoid tid newStatus ex ev w
           = snd (dispatchPaymentEvent now (p_payment_ref payment) ev w)"
  using assms by (simp add: update_and_dispatch_def updatePaymentStatus_def)

text \<open>
  Claim C5. When the payment a callback locates is already at the status the callback
  asks for, \<open>updatePaymentStatus\<close> writes nothing and returns the payment reference,
  and each of the three provider routes answers 200 for an authenticated callback of that
  kind while leaving the payment rows, the ledger and the customers as they were.
\<close>

theorem callback_replay_noop:
  assumes located: "find (\<lambda>p. p_provider_transaction_id p = Some tid) (payments w) = Some payment"
      and same: "p_status payment = status_of newStatus"
      and tid: "tid \<noteq> []"
  shows "updatePaymentStatus now nanoid tid newStatus ex w
           = (Inr (Some (p_payment_ref payment)), w)
       \<and> (body ''transactionId'' = Some (JStr tid) \<and> truthy (body ''orderId'') \<and>
            newStatus = ToCompleted \<longrightarrow>
            fst (moncashWebhook now nanoid body w) = (200, Received) \<and>
            payments (snd (moncashWebhook now nanoid body w)) = payments w \<and>
            transactions (snd (moncashWebhook now nanoid body w)) = transactions w \<and>
            customers (snd (moncashWebhook now nanoid body w)) = customers w)
       \<and> (body ''transactionId'' = Some (JStr tid) \<and> natStatus (body ''status'') = Some st \<and>
            newStatus = (if st = ''SUCCESS'' then ToCompleted else ToFailed) \<longrightarrow>
            fst (natcashWebhook now nanoid body w) = (200, Received) \<and>
            payments (snd (natcashWebhook now nanoid body w)) = payments w \<and>
            transactions (snd (natcashWebhook now nanoid body w)) = transactions w \<and>
            customers (snd (natcashWebhook now nanoid body w)) = customers w)
       \<and> (sg \<noteq> [] \<and> constructEvent rawBody sg = Some ev \<and>
            ((se_type ev = ''payment_intent.succeeded'' \<and> se_object_id ev = tid \<and>
                newStatus = ToCompleted) \<or>
             (se_type ev = ''payment_intent.payment_failed'' \<and> se_object_id ev = tid \<and>
                newStatus = ToFailed) \<or>
             (se_type ev = ''payment_intent.canceled'' \<and> se_object_id ev = tid \<and>
                newStatus = ToCancelled) \<or>
             (se_type ev = ''charge.refunded'' \<and> se_payment_intent ev = Some tid \<and>
                newStatus = ToRefunded)) \<longrightarrow>
            fst (stripeWebhook constructEvent now nanoid (Some sg) rawBody w) = (200, Received) \<and>
            payments (snd (stripeWebhook constructEvent now nanoid (Some sg) rawBody w))
              = payments w \<and>
            transactions (snd (stripeWebhook constructEvent now nanoid (Some sg) rawBody w))
              = transactions w \<and>
            customers (snd (stripeWebhook constructEvent now nanoid (Some sg) rawBody w))
              = customers w)"
proof -
  have upd: "\<And>ex ev. update_and_dispatch now nanoid tid newStatus ex ev w
           = snd (dispatchPaymentEvent now (p_payment_ref payment) ev w)"
    using located same by (rule update_and_dispatch_same_status)
  have c1: "updatePaymentStatus now nanoid tid newStatus ex w
           = (Inr (Some (p_payment_ref payment)), w)"
    using located same by (rule updatePaymentStatus_same_status)
  have c2: "body ''transactionId'' = Some (JStr tid) \<and> truthy (body ''orderId'') \<and>
            newStatus = ToCompleted \<longrightarrow>
            fst (moncashWebhook now nanoid body w) = (200, Received) \<and>
            payments (snd (moncashWebhook now nanoid body w)) = payments w \<and>
            transactions (snd (moncashWebhook now nanoid body w)) = transactions w \<and>
            customers (snd (moncashWebhook now nanoid body w)) = customers w"
    using tid upd by (auto simp: moncashWebhook_def dispatchPaymentEvent_rows)
  have c3: "body ''transactionId'' = Some (JStr tid) \<and> natStatus (body ''status'') = Some st \<and>
            newStatus = (if st = ''SUCCESS'' then ToCompleted else ToFailed) \<longrightarrow>
            fst (natcashWebhook now nanoid body w) = (200, Received) \<and>
            payments (snd (natcashWebhook now nanoid body w)) = payments w \<and>
            transactions (snd (natcashWebhook now nanoid body w)) = transactions w \<and>
            customers (snd (natcashWebhook now nanoid body w)) = customers w"
    using tid upd by (auto simp: natcashWebhook_def dispatchPaymentEvent_rows)
  have c4: "sg \<noteq> [] \<and> constructEvent rawBody sg = Some ev \<and>
            ((se_type ev = ''payment_intent.succeeded'' \<and> se_object_id ev = tid \<and>
                newStatus = ToCompleted) \<or>
             (se_type ev = ''payment_intent.payment_failed'' \<and> se_object_id ev = tid \<and>
                newStatus = ToFailed) \<or>
             (se_type ev = ''payment_intent.canceled'' \<and> se_object_id ev = tid \<and>
                newStatus = ToCancelled) \<or>
             (se_type ev = ''charge.refunded'' \<and> se_payment_intent ev = Some tid \<and>
                newStatus = ToRefunded)) \<longrightarrow>
            fst (stripeWebhook constructEvent now nanoid (Some sg) rawBody w) = (200, Received) \<and>
            payments (snd (stripeWebhook constructEvent now nanoid (Some sg) rawBody w))
              = payments w \<and>
            transactions (snd (stripeWebhook constructEvent now nanoid (Some sg) rawBody w))
              = transactions w \<and>
            customers (snd (stripeWebhook constructEvent now nanoid (Some sg) rawBody w))
              = customers w"
    using tid upd
    by (auto simp: stripeWebhook_def validateWebhookSignature_def dispatchPaymentEvent_rows)
  show ?thesis using c1 c2 c3 c4 by blast
qed

theorem callback_replay_noop_witness:
  "find (\<lambda>p. p_provider_transaction_id p = Some ''ABC'') (payments (example_world Completed []))
     = Some (example_payment Completed)
   \<and> p_status (example_payment Completed) = status_of ToCompleted
   \<and> ''ABC'' \<noteq> []
   \<and> moncash_body ''transactionId'' = Some (JStr ''ABC'') \<and> truthy (moncash_body ''orderId'')
   \<and> natcash_body ''transactionId'' = Some (JStr ''ABC'')
   \<and> natStatus (natcash_body ''status'') = Some ''SUCCESS''
   \<and> ''t=1,v1=ok'' \<noteq> []
   \<and> example_constructEvent ''{}'' ''t=1,v1=ok'' = Some example_stripe_event
   \<and> se_type example_stripe_event = ''payment_intent.succeeded''
   \<and> se_object_id example_stripe_event = ''ABC''
   \<and> fst (moncashWebhook 5000 ''r1'' moncash_body (example_world Completed [])) = (200, Received)
   \<and> payments (snd (moncashWebhook 5000 ''r1'' moncash_body (example_world Completed [])))
        = payments (example_world Completed [])
   \<and> fst (natcashWebhook 5000 ''r1'' natcash_body (example_world Completed [])) = (200, Received)
   \<and> payments (snd (natcashWebhook 5000 ''r1'' natcash_body (example_world Completed [])))
        = payments (example_world Completed [])
   \<and> fst (stripeWebhook example_constructEvent 5000 ''r1'' (Some ''t=1,v1=ok'') ''{}''
             (example_world Completed [])) = (200, Received)
   \<and> payments (snd (stripeWebhook example_constructEvent 5000 ''r1'' (Some ''t=1,v1=ok'') ''{}''
             (example_world Completed [])))
        = payments (example_world Completed [])"
proof -
  have located: "find (\<lambda>p. p_provider_transaction_id p = Some ''ABC'')
                   (payments (example_world Completed [])) = Some (example_payment Completed)"
    by (simp add: example_defs)
  have same: "p_status (example_payment Completed) = status_of ToCompleted"
    by (simp add: example_defs)
  have tid: "''ABC'' \<noteq> []"
    by simp
  have ns: "natStatus (natcash_body ''status'') = Some ''SUCCESS''"
    by (simp add: natStatus_def toUpperCase_def natcash_body_def)
  show ?thesis
    using located same ns
      callback_replay_noop [OF located same tid, where body = moncash_body
        and st = "''SUCCESS''" and sg = "''t=1,v1=ok''" and constructEvent = example_constructEvent
        and rawBody = "''{}''" and ev = example_stripe_event and now = 5000 and nanoid = "''r1''"]
      callback_replay_noop [OF located same tid, where body = natcash_body
        and st = "''SUCCESS''" and sg = "''t=1,v1=ok''" and constructEvent = example_constructEvent
        and rawBody = "''{}''" and ev = example_stripe_event and now = 5000 and nanoid = "''r1''"]
    by (simp add: moncash_body_def natcash_body_def example_stripe_event_def
        example_constructEvent_def)
qed



subsection \<open>Callbacks on a payment at another status\<close>

lemma find_key_of_find:
  "find P xs = Some x \<Longrightarrow> \<exists>y. find (\<lambda>z. g z = g x) xs = Some y"
  by (cases "find (\<lambda>z. g z = g x) xs") (auto simp: find_None_iff find_Some_iff)

lemma payment_update_id_ok:
  "find (\<lambda>p. p_id p = i) (payments w) = Some y \<Longrightarrow>
   payment_update_id i f w
     = (Inr (f y), w\<lparr>payments := map (\<lambda>q. if p_id q = i then f q else q) (payments w)\<rparr>)"
  by (simp add: payment_update_id_def)

lemma find_id_map:
  "find (\<lambda>p. p_id p = i) xs = Some y \<Longrightarrow> (\<And>q. p_id (f q) = p_id q) \<Longrightarrow>
   find (\<lambda>p. p_id p = i) (map (\<lambda>q. if p_id q = i then f q else q) xs) = Some (f y)"
  by (induction xs) (auto split: if_splits)

lemma map_status_update:
  "(\<And>q. p_status (f q) = s) \<Longrightarrow>
   map p_status (map (\<lambda>q. if p_id q = i then f q else q) xs)
     = map (\<lambda>q. if p_id q = i then s else p_status q) xs"
  by (induction xs) auto

lemma map_status_keep:
  "(\<And>q. p_status (f q) = p_status q) \<Longrightarrow>
   map p_status (map (\<lambda>q. if p_id q = i then f q else q) xs) = map p_status xs"
  by (induction xs) auto

lemma sync_customer_ok:
  assumes nofault: "faults w = []"
      and present: "find (\<lambda>p. p_id p = p_id payment) (payments w) = Some y"
  shows "\<exists>w'. sync_customer now payment w = (Inr (), w') \<and>
              map p_status (payments w') = map p_status (payments w) \<and>
              transactions w' = transactions w \<and> faults w' = []"
proof (cases "find (\<lambda>c. c_merchant_id c = p_merchant_id payment \<and>
                            c_environment c = p_environment payment \<and>
                            ((truthy_str (p_customer_email payment) \<and>
                              c_email c = p_customer_email payment) \<or>
                             (truthy_str (p_customer_phone payment) \<and>
                              c_phone c = p_customer_phone payment)))
                   (customers w)")
  case None
  then show ?thesis
    using nofault present
    by (simp add: sync_customer_def prisma_def customer_create_def payment_update_id_def
        Let_def map_status_keep)
next
  case (Some customer)
  obtain c' where c': "find (\<lambda>c. c_id c = c_id customer) (customers w) = Some c'"
    using find_key_of_find [OF Some, of c_id] by blast
  show ?thesis
    using nofault present Some c'
    by (simp add: sync_customer_def prisma_def customer_update_id_def payment_update_id_def
        Let_def map_status_keep)
qed

text \<open>
  Claim C3, as the code has it. \<open>updatePaymentStatus\<close> compares the current status
  with the target only for equality. A callback whose target equals the current status
  is a no-op; any other callback that the store accepts is applied, whatever the current
  status: the located payment moves to the target status and the reference is returned.
  No transition is rejected.
\<close>

theorem callback_transition_unconditional:
  assumes located: "find (\<lambda>p. p_provider_transaction_id p = Some tid) (payments w) = Some payment"
      and accepted: "updateData now newStatus ex payment \<noteq> None"
      and nofault: "faults w = []"
  shows "(p_status payment = status_of newStatus \<longrightarrow>
            updatePaymentStatus now nanoid tid newStatus ex w
              = (Inr (Some (p_payment_ref payment)), w))
       \<and> (p_status payment \<noteq> status_of newStatus \<longrightarrow>
            fst (updatePaymentStatus now nanoid tid newStatus ex w)
              = Inr (Some (p_payment_ref payment)) \<and>
            map p_status (payments (snd (updatePaymentStatus now nanoid tid newStatus ex w)))
              = map (\<lambda>q. if p_id q = p_id payment then status_of newStatus else p_status q)
                  (payments w))"
proof -
  obtain y where y: "find (\<lambda>p. p_id p = p_id payment) (payments w) = Some y"
    using find_id_of_find [OF located] by blast
  obtain change where change: "updateData now newStatus ex payment = Some change"
    using accepted by blast
  have st: "\<And>q. p_status (change q) = status_of newStatus"
    using change
    by (cases newStatus) (auto simp: updateData_def split: option.splits jv.splits)
  have ident: "\<And>q. p_id (change q) = p_id q"
    using change
    by (cases newStatus) (auto simp: updateData_def split: option.splits jv.splits)
  define w1 where "w1 = w\<lparr>payments := map (\<lambda>q. if p_id q = p_id payment then change q else q)
                                          (payments w)\<rparr>"
  have step1: "prisma (payment_update_id (p_id payment) change) w = (Inr (change y), w1)"
    using nofault y by (simp add: prisma_def payment_update_id_def w1_def)
  have st1: "map p_status (payments w1)
               = map (\<lambda>q. if p_id q = p_id payment then status_of newStatus else p_status q)
                   (payments w)"
    by (simp add: w1_def map_status_update st)
  show ?thesis
  proof (cases "newStatus = ToCompleted")
    case False
    then show ?thesis
      using located change step1 st1 by (simp add: updatePaymentStatus_def)
  next
    case True
    let ?tc = "transaction_create now (generateTransactionRef nanoid)
                 (p_id payment) (p_merchant_id payment) Credit ''completed''
                 (p_amount payment) (p_currency payment)
                 (''Paiement '' @ channel_str (p_channel payment) @ '' ''
                    @ [CHR 0xE2, CHR 0x80, CHR 0x94] @ '' '' @ p_payment_ref payment)"
    have f1: "faults w1 = []"
      using nofault by (simp add: w1_def)
    have "\<exists>t w2. ?tc w1 = (Inr t, w2) \<and> payments w2 = payments w1 \<and> faults w2 = []"
      using f1 by (simp add: transaction_create_def Let_def)
    then obtain t w2 where tc: "?tc w1 = (Inr t, w2)" and p2: "payments w2 = payments w1"
      and f2: "faults w2 = []"
      by blast
    have step2: "prisma ?tc w1 = (Inr t, w2)"
      using f1 tc by (simp add: prisma_no_faults)
    have y2: "find (\<lambda>p. p_id p = p_id payment) (payments w2) = Some (change y)"
      using find_id_map [OF y ident] by (simp add: p2 w1_def)
    obtain w3 where sc: "sync_customer now payment w2 = (Inr (), w3)"
      and p3: "map p_status (payments w3) = map p_status (payments w2)"
      using sync_customer_ok [OF f2 y2] by blast
    show ?thesis
      using True located change step1 step2 sc p3 p2 st1
      by (simp add: updatePaymentStatus_def)
  qed
qed

theorem callback_transition_unconditional_witness:
  "find (\<lambda>p. p_provider_transaction_id p = Some ''ABC'') (payments (example_world Failed []))
     = Some (example_payment Failed)
   \<and> updateData 5000 ToCompleted no_extra (example_payment Failed) \<noteq> None
   \<and> faults (example_world Failed []) = []
   \<and> p_status (example_payment Failed) \<noteq> status_of ToCompleted
   \<and> p_status (example_payment Completed) = status_of ToCompleted
   \<and> fst (updatePaymentStatus 5000 ''r1'' ''ABC'' ToCompleted no_extra (example_world Failed []))
        = Inr (Some ''pay_A'')
   \<and> map p_status
        (payments (snd (updatePaymentStatus 5000 ''r1'' ''ABC'' ToCompleted no_extra
                          (example_world Failed []))))
        = [Completed]
   \<and> updatePaymentStatus 5000 ''r1'' ''ABC'' ToCompleted no_extra (example_world Completed [])
        = (Inr (Some ''pay_A''), example_world Completed [])"
proof -
  have located: "find (\<lambda>p. p_provider_transaction_id p = Some ''ABC'')
                   (payments (example_world st [])) = Some (example_payment st)" for st
    by (simp add: example_defs)
  have accepted: "updateData 5000 ToCompleted no_extra (example_payment st) \<noteq> None" for st
    by (simp add: updateData_def)
  have nofault: "faults (example_world st []) = []" for st
    by (simp add: example_defs)
  show ?thesis
    using located [of Failed] accepted [of Failed] nofault [of Failed]
      callback_transition_unconditional [OF located [of Failed] accepted [of Failed]
        nofault [of Failed], of "''r1''"]
      callback_transition_unconditional [OF located [of Completed] accepted [of Completed]
        nofault [of Completed], of "''r1''"]
    by (simp add: example_defs)
qed

text \<open>
  Claim C3 as stated fails: a MonCash callback moves a failed payment to completed, and a
  NatCash callback with status \<open>FAILED\<close> moves a completed payment to failed. Neither
  transition is in the graph; both routes answer 200.
\<close>

theorem reverse_transition_counterexample:
  "\<not> spec_transition Failed Completed
   \<and> map p_status (payments (example_world Failed [])) = [Failed]
   \<and> fst (moncashWebhook 5000 ''r1'' moncash_body (example_world Failed [])) = (200, Received)
   \<and> map p_status (payments (snd (moncashWebhook 5000 ''r1'' moncash_body
                                     (example_world Failed [])))) = [Completed]
   \<and> \<not> spec_transition Completed Failed
   \<and> map p_status (payments (example_world Completed [])) = [Completed]
   \<and> fst (natcashWebhook 5000 ''r1'' natcash_failed_body (example_world Completed []))
        = (200, Received)
   \<and> map p_status (payments (snd (natcashWebhook 5000 ''r1'' natcash_failed_body
                                     (example_world Completed [])))) = [Failed]"
  by (simp add: eval_defs example_defs natcash_failed_body_def)

subsection \<open>Completion under a failing write\<close>

text \<open>
  Claim C2. The completion path issues its writes one after the other, outside any
  transaction. When the ledger insert throws after the status update has gone through,
  the payment stays completed with no credit row; the route answers 200, and a replay of
  the callback finds the status already at its target and inserts nothing.
\<close>

theorem completion_not_atomic:
  "fst (moncashWebhook 5000 ''r1'' moncash_body
          (example_world Processing [None, Some ''connection lost''])) = (200, Received)
   \<and> map p_status (payments (snd (moncashWebhook 5000 ''r1'' moncash_body
          (example_world Processing [None, Some ''connection lost''])))) = [Completed]
   \<and> transactions (snd (moncashWebhook 5000 ''r1'' moncash_body
          (example_world Processing [None, Some ''connection lost'']))) = []
   \<and> transactions (snd (moncashWebhook 9000 ''r2'' moncash_body
          (snd (moncashWebhook 5000 ''r1'' moncash_body
             (example_world Processing [None, Some ''connection lost'']))))) = []"
  by (simp add: eval_defs example_defs)

text \<open>The callback of this run passes the route's own checks and finds the payment in
  status processing; the oracle lets exactly the first write through.\<close>

theorem completion_not_atomic_witness:
  "truthy (moncash_body ''transactionId'') \<and> truthy (moncash_body ''orderId'')
   \<and> map p_status (payments (example_world Processing [None, Some ''connection lost'']))
        = [Processing]
   \<and> faults (example_world Processing [None, Some ''connection lost''])
        = [None, Some ''connection lost'']
   \<and> map p_status (payments (snd (moncashWebhook 5000 ''r1'' moncash_body
          (example_world Processing [None, Some ''connection lost''])))) = [Completed]
   \<and> transactions (snd (moncashWebhook 5000 ''r1'' moncash_body
          (example_world Processing [None, Some ''connection lost'']))) = []"
  using completion_not_atomic by (simp add: example_defs)

subsection \<open>Callback authentication\<close>

text \<open>What the routes do reject: a Stripe callback without a signature or with one the
  SDK refuses, and a MonCash or NatCash callback without the identifiers the route
  checks, are answered 400 with the store untouched.\<close>

lemma unauthenticated_callbacks_rejected:
  "(signature = None \<or> signature = Some [] \<or>
      (\<exists>sg. signature = Some sg \<and> constructEvent rawBody sg = None) \<longrightarrow>
      fst (fst (stripeWebhook constructEvent now nanoid signature rawBody w)) = 400 \<and>
      snd (stripeWebhook constructEvent now nanoid signature rawBody w) = w)
   \<and> (\<not> truthy (body ''transactionId'') \<or> \<not> truthy (body ''orderId'') \<longrightarrow>
      fst (fst (moncashWebhook now nanoid body w)) = 400 \<and>
      snd (moncashWebhook now nanoid body w) = w)
   \<and> (\<not> truthy (body ''transactionId'') \<longrightarrow>
      fst (fst (natcashWebhook now nanoid body w)) = 400 \<and>
      snd (natcashWebhook now nanoid body w) = w)"
  by (auto simp: stripeWebhook_def validateWebhookSignature_def moncashWebhook_def
      natcashWebhook_def split: option.splits)

text \<open>
  Claim C8. The MonCash route does not look at \<open>amount\<close>. A callback that carries both
  identifiers and no amount, which \<open>validateWebhookPayload\<close> of the adapter refuses, is
  answered 200 and completes the payment, credit row included.
\<close>

theorem moncash_amount_not_checked:
  "\<not> validateWebhookPayload moncash_body_without_amount
   \<and> fst (moncashWebhook 5000 ''r1'' moncash_body_without_amount (example_world Processing []))
       = (200, Received)
   \<and> map p_status (payments (snd (moncashWebhook 5000 ''r1'' moncash_body_without_amount
                                     (example_world Processing [])))) = [Completed]
   \<and> map t_type (transactions (snd (moncashWebhook 5000 ''r1'' moncash_body_without_amount
                                     (example_world Processing [])))) = [Credit]"
  by (simp add: eval_defs example_defs validateWebhookPayload_def)

text \<open>The callback of this run passes the route's own checks.\<close>

theorem moncash_amount_not_checked_witness:
  "truthy (moncash_body_without_amount ''transactionId'')
   \<and> truthy (moncash_body_without_amount ''orderId'')
   \<and> moncash_body_without_amount ''amount'' = None
   \<and> map p_status (payments (example_world Processing [])) = [Processing]
   \<and> fst (moncashWebhook 5000 ''r1'' moncash_body_without_amount (example_world Processing []))
       = (200, Received)
   \<and> map p_status (payments (snd (moncashWebhook 5000 ''r1'' moncash_body_without_amount
                                     (example_world Processing [])))) = [Completed]"
  using moncash_amount_not_checked by (simp add: example_defs)

subsection \<open>Outbound delivery under retries\<close>

lemma run_webhook_attempts_numeral:
  "run_webhook_attempts outcome clock made (numeral k) d w =
     (case deliverWebhook (clock made) (outcome made) d w of
        (Inr _, w1) \<Rightarrow> (True, w1)
      | (Inl _, w1) \<Rightarrow> run_webhook_attempts outcome clock (Suc made) (pred_numeral k) d w1)"
  by (simp add: numeral_eq_Suc)

lemma run_payment_attempts_numeral:
  "run_payment_attempts outcome clock made (numeral k) d w =
     (case processPayment (clock made) (outcome made) d w of
        (Inr _, w1) \<Rightarrow> (True, w1)
      | (Inl _, w1) \<Rightarrow> run_payment_attempts outcome clock (Suc made) (pred_numeral k) d w1)"
  by (simp add: numeral_eq_Suc)

text \<open>Whatever the endpoint answers, a log row that \<open>deliverWebhook\<close> writes carries
  the \<open>attempt\<close> field of the job data as its attempt count.\<close>

lemma webhookLog_update_attempt:
  assumes run: "webhookLog_update i st h b a now dl w0 = (r, w1)"
      and mem: "l' \<in> set (webhook_logs w1)"
  shows "l' \<in> set (webhook_logs w0) \<or> wl_attempt_count l' = a"
proof -
  let ?g = "\<lambda>l. if wl_id l = i
                    then l\<lparr>wl_status := st,
                           wl_http_status :=
                             (case h of None \<Rightarrow> wl_http_status l | Some x \<Rightarrow> Some x),
                           wl_response_body :=
                             (case b of None \<Rightarrow> wl_response_body l | Some x \<Rightarrow> Some x),
                           wl_attempt_count := a,
                           wl_last_attempt_at := Some now,
                           wl_delivered_at :=
                             (case dl of None \<Rightarrow> wl_delivered_at l | Some x \<Rightarrow> Some x)\<rparr>
                    else l"
  have logs: "webhook_logs w1 = map ?g (webhook_logs w0)"
    using run by (auto simp: webhookLog_update_def)
  obtain l where l: "l \<in> set (webhook_logs w0)" and l': "l' = ?g l"
    using mem unfolding logs by (auto simp del: webhook_log.simps)
  show ?thesis
  proof (cases "wl_id l = i")
    case True
    then have "wl_attempt_count l' = a" using l' by simp
    then show ?thesis ..
  next
    case False
    then have "l' = l" using l' by simp
    then show ?thesis using l by simp
  qed
qed

lemma update_log_attempt:
  assumes run: "update_log d st h b now dl w = (r, w1)"
      and mem: "l' \<in> set (webhook_logs w1)"
  shows "l' \<in> set (webhook_logs w) \<or> wl_attempt_count l' = wj_attempt d"
proof (cases "latest_log (wj_webhook_config_id d) (wj_payment_id d) (wj_event_type d)
                (webhook_logs w)")
  case None
  then show ?thesis using run mem by (simp add: update_log_def)
next
  case (Some logRow)
  then have "prisma (webhookLog_update (wl_id logRow) st h b (wj_attempt d) now dl) w = (r, w1)"
    using run by (simp add: update_log_def)
  then show ?thesis
  proof (cases rule: prisma_result)
    case (1 fs)
    then show ?thesis
      using webhookLog_update_attempt [OF 1 mem] by simp
  next
    case (2 fs m)
    then show ?thesis using mem by simp
  qed
qed

lemma deliverWebhook_attempt_count:
  assumes mem: "l' \<in> set (webhook_logs (snd (deliverWebhook now outcome d w)))"
  shows "l' \<in> set (webhook_logs w) \<or> wl_attempt_count l' = wj_attempt d"
proof -
  have step: "l' \<in> set (webhook_logs (snd (update_log d st h b now dl w))) \<Longrightarrow>
              l' \<in> set (webhook_logs w) \<or> wl_attempt_count l' = wj_attempt d" for st h b dl
    using update_log_attempt [of d st h b now dl w "fst (update_log d st h b now dl w)"
        "snd (update_log d st h b now dl w)" l']
    by simp
  show ?thesis
  proof (cases "find (\<lambda>c. wc_id c = wj_webhook_config_id d) (webhook_configs w)")
    case None
    then show ?thesis using mem by (simp add: deliverWebhook_def)
  next
    case (Some cfg)
    show ?thesis
    proof (cases "wc_is_active cfg")
      case False
      then show ?thesis using mem Some by (simp add: deliverWebhook_def)
    next
      case True
      show ?thesis
      proof (cases outcome)
        case (Response status body)
        then show ?thesis
          using mem Some True
            step [of LogDelivered "Some status" "Some (take 500 body)" "Some now"]
            step [of LogFailed "Some status"
              "Some (take 500 (''Request failed with status code '' @ string_of_nat status))" None]
          by (simp add: deliverWebhook_def split: if_splits prod.splits sum.splits)
      next
        case (AxiosNoResponse msg)
        then show ?thesis
          using mem Some True step [of LogFailed None "Some (take 500 msg)" None]
          by (simp add: deliverWebhook_def split: prod.splits sum.splits)
      next
        case (OtherFailure msg)
        then show ?thesis
          using mem Some True step [of LogFailed None None None]
          by (simp add: deliverWebhook_def split: prod.splits sum.splits)
      qed
    qed
  qed
qed

text \<open>
  Claim C6. The dispatcher enqueues the job with \<open>attempt: 1\<close> in its data, the queue
  runs every retry with the same data, and \<open>deliverWebhook\<close> writes that field into
  \<open>attempt_count\<close>. With an endpoint that answers 500 on attempts 1 to 4 and 200 on
  attempt 5, the job completes on the fifth attempt and the log row ends as delivered,
  with the HTTP status and the time of the last attempt, but with \<open>attempt_count = 1\<close>.
\<close>

theorem attempt_count_stays_one:
  "map job_attempts (webhookQueue dispatched_world) = [5]
   \<and> map wl_status (webhook_logs dispatched_world) = [LogPending]
   \<and> fst (run_webhook_job four_failures_then_ok example_clock
             (hd (webhookQueue dispatched_world)) dispatched_world) = True
   \<and> map wl_status
        (webhook_logs (snd (run_webhook_job four_failures_then_ok example_clock
                              (hd (webhookQueue dispatched_world)) dispatched_world)))
        = [LogDelivered]
   \<and> map wl_http_status
        (webhook_logs (snd (run_webhook_job four_failures_then_ok example_clock
                              (hd (webhookQueue dispatched_world)) dispatched_world)))
        = [Some 200]
   \<and> map wl_last_attempt_at
        (webhook_logs (snd (run_webhook_job four_failures_then_ok example_clock
                              (hd (webhookQueue dispatched_world)) dispatched_world)))
        = [Some 10000]
   \<and> map wl_attempt_count
        (webhook_logs (snd (run_webhook_job four_failures_then_ok example_clock
                              (hd (webhookQueue dispatched_world)) dispatched_world)))
        = [1]"
  by (simp add: dispatched_world_def eval_defs example_defs run_webhook_job_def
      run_webhook_attempts_numeral deliverWebhook_def update_log_def latest_log_def
      webhookLog_update_def four_failures_then_ok_def example_clock_def)

theorem attempt_count_stays_one_witness:
  "wc_is_active example_config
   \<and> four_failures_then_ok 0 = Response 500 ''error''
   \<and> four_failures_then_ok 3 = Response 500 ''error''
   \<and> four_failures_then_ok 4 = Response 200 ''{}''
   \<and> map job_attempts (webhookQueue dispatched_world) = [5]
   \<and> map wl_status
        (webhook_logs (snd (run_webhook_job four_failures_then_ok example_clock
                              (hd (webhookQueue dispatched_world)) dispatched_world)))
        = [LogDelivered]
   \<and> map wl_attempt_count
        (webhook_logs (snd (run_webhook_job four_failures_then_ok example_clock
                              (hd (webhookQueue dispatched_world)) dispatched_world)))
        = [1]"
  using attempt_count_stays_one
  by (simp add: example_config_def four_failures_then_ok_def)

subsection \<open>Payment jobs whose retries are used up\<close>

lemma payment_update_ref_dlq:
  assumes "prisma (payment_update_ref x f) w = (r, w')"
  shows "dlqQueue w' = dlqQueue w"
  using assms
  by (cases rule: prisma_result) (auto simp: payment_update_ref_def split: option.splits)

lemma processPayment_dlq:
  "dlqQueue (snd (processPayment now outcome d w)) = dlqQueue w"
  by (auto simp: processPayment_def processPayment_catch_def dispatchPaymentEvent_rows
      split: prod.splits sum.splits dest!: payment_update_ref_dlq)

lemma run_payment_attempts_dlq:
  "dlqQueue (snd (run_payment_attempts outcome clock made left d w)) = dlqQueue w"
proof (induction left arbitrary: made w)
  case 0
  show ?case by simp
next
  case (Suc left)
  show ?case
    using processPayment_dlq [of "clock made" "outcome made" d w]
    by (auto simp: Suc.IH split: prod.splits sum.splits)
qed

lemma run_payment_job_dlq:
  "dlqQueue (snd (run_payment_job outcome clock j w)) = dlqQueue w"
  by (simp add: run_payment_job_def run_payment_attempts_dlq)

lemma find_ref_map:
  "find (\<lambda>p. p_payment_ref p = r) xs = Some y \<Longrightarrow> (\<And>q. p_payment_ref (f q) = p_payment_ref q) \<Longrightarrow>
   find (\<lambda>p. p_payment_ref p = r) (map (\<lambda>q. if p_payment_ref q = r then f q else q) xs)
     = Some (f y)"
  by (induction xs) (auto split: if_splits)

lemma processPayment_rethrows:
  assumes present: "find (\<lambda>p. p_payment_ref p = pj_payment_ref d) (payments w) = Some y"
      and nofault: "faults w = []"
  shows "fst (processPayment now (Inl err) d w) = Inl err"
proof -
  have again: "find (\<lambda>p. p_payment_ref p = pj_payment_ref d)
                 (map (\<lambda>q. if p_payment_ref q = pj_payment_ref d
                           then q\<lparr>p_status := Processing\<rparr> else q) (payments w))
                 = Some (y\<lparr>p_status := Processing\<rparr>)"
    using find_ref_map [OF present, of "\<lambda>q. q\<lparr>p_status := Processing\<rparr>"] by simp
  show ?thesis
    using present nofault again
    by (simp add: processPayment_def processPayment_catch_def prisma_def payment_update_ref_def)
qed

text \<open>
  Claim C7. A payment job is enqueued with three attempts. When the provider adapter
  throws at every attempt, \<open>processPayment\<close> marks the payment failed with the error's
  message and rethrows each time, and the job ends failed after the third attempt. Nothing
  is ever added to \<open>payments.dlq\<close>: the dead-letter queue is as empty as before.
\<close>

theorem exhausted_job_not_in_dlq:
  "map job_attempts (monCashQueue queued_world) = [3]
   \<and> map job_data (monCashQueue queued_world) = [example_job_data]
   \<and> fst (run_payment_job provider_always_fails example_clock
             (hd (monCashQueue queued_world)) queued_world) = False
   \<and> map p_status
        (payments (snd (run_payment_job provider_always_fails example_clock
                          (hd (monCashQueue queued_world)) queued_world)))
        = [Failed]
   \<and> map p_failure_reason
        (payments (snd (run_payment_job provider_always_fails example_clock
                          (hd (monCashQueue queued_world)) queued_world)))
        = [Some ''Erreur du fournisseur de paiement'']
   \<and> dlqQueue (snd (run_payment_job provider_always_fails example_clock
                       (hd (monCashQueue queued_world)) queued_world)) = []"
  by (simp add: queued_world_def queuePayment_def example_job_data_def eval_defs example_defs
      run_payment_job_def run_payment_attempts_numeral processPayment_def
      processPayment_catch_def payment_update_ref_def provider_always_fails_def
      example_clock_def)

theorem exhausted_job_not_in_dlq_witness:
  "provider_always_fails 0 = Inl (ApiError PROVIDER_ERROR)
   \<and> provider_always_fails 2 = Inl (ApiError PROVIDER_ERROR)
   \<and> map p_status (payments queued_world) = [Pending]
   \<and> map job_attempts (monCashQueue queued_world) = [3]
   \<and> fst (run_payment_job provider_always_fails example_clock
             (hd (monCashQueue queued_world)) queued_world) = False
   \<and> dlqQueue (snd (run_payment_job provider_always_fails example_clock
                       (hd (monCashQueue queued_world)) queued_world)) = []"
  using exhausted_job_not_in_dlq
  by (simp add: provider_always_fails_def queued_world_def queuePayment_def example_defs)

subsection \<open>Fees and net amounts\<close>







lemma map_view_keep:
  "(\<And>q. fee_view (f q) = fee_view q) \<Longrightarrow>
   map fee_view (map (\<lambda>q. if c q then f q else q) xs) = map fee_view xs"
  by (induction xs) auto











lemma createRoute_row:
  assumes parse: "createPaymentSchema is_email body = Some inp"
      and miss: "(case cache_key idempotencyKey of None \<Rightarrow> None | Some k \<Rightarrow> redis_get now k w) = None"
      and nofault: "faults w = []"
  shows "\<exists>p resp w'.
           createRoute is_email environment now nanoid merchantId idempotencyKey body w
             = (Inr (201, successResponse resp), w') \<and>
           payments w' = payments w @ [p] \<and>
           p_status p = Pending \<and> p_amount p = ci_amount inp \<and> p_channel p = ci_channel inp \<and>
           p_fee_rate p = Some (FEE_RATES (ci_channel inp)) \<and>
           p_fee_amount p = Some (toFixed2 (ci_amount inp * FEE_RATES (ci_channel inp))) \<and>
           p_net_amount p
             = Some (toFixed2 (ci_amount inp
                                 - toFixed2 (ci_amount inp * FEE_RATES (ci_channel inp)))) \<and>
           cr_payment_ref resp = ''pay_'' @ nanoid \<and>
           length (monCashQueue w') + length (natCashQueue w') + length (stripeQueue w')
             = Suc (length (monCashQueue w) + length (natCashQueue w) + length (stripeQueue w)) \<and>
           faults w' = [] \<and>
           (case cache_key idempotencyKey of
              None \<Rightarrow> redis w' = redis w
            | Some k \<Rightarrow> redis w' = (redis w)(k \<mapsto> (resp, now + 24 * 60 * 60 * 1000)))"
  using parse miss nofault
  by (cases "ci_channel inp"; cases "cache_key idempotencyKey")
    (simp_all add: createRoute_def prisma_def payment_create_def queuePayment_def
      redis_set_ex_def generatePaymentRef_def num_or_zero_def successResponse_def Let_def)




lemma floor_rat_numeral: "\<lfloor>(numeral a :: rat) / numeral b\<rfloor> = numeral a div numeral b"
  by (metis floor_divide_of_int_eq of_int_numeral)

lemmas create_defs = createRoute_def createPaymentSchema_def parse_amount_def parse_currency_def
  parse_channel_def max_len_def cache_key_def redis_get_def redis_set_ex_def prisma_def
  payment_create_def queuePayment_def generatePaymentRef_def num_or_zero_def
  successResponse_def create_body_def toFixed2_def floor_rat_numeral
  default_refunded_amount_def Let_def




subsection \<open>Idempotent create\<close>

text \<open>
  Claim C4. Take a create request with a non-empty \<open>Idempotency-Key\<close> that passes the
  schema and finds no cached entry, on a store that does not fail. It answers 201 with a
  body, inserts exactly one payment row and enqueues exactly one provider job. Any later
  create request with the same key that passes the schema and arrives before the 24 hours
  of the cache entry are over is answered with the same body, and leaves the store
  exactly as it was: no payment row, no job. The replay is answered with status 200.
\<close>

theorem idempotent_create_replay:
  assumes parse1: "createPaymentSchema is_email body_first = Some inp_first"
      and parse2: "createPaymentSchema is_email body_replay = Some inp_replay"
      and key: "k \<noteq> []"
      and miss: "redis_get now_first (''idempotency:'' @ k) w = None"
      and nofault: "faults w = []"
      and first: "createRoute is_email environment now_first nanoid_first merchant_first (Some k) body_first w
                    = (r1, w1)"
      and ttl: "now_replay < now_first + 24 * 60 * 60 * 1000"
  shows "\<exists>resp p.
           r1 = Inr (201, successResponse resp) \<and>
           payments w1 = payments w @ [p] \<and>
           length (monCashQueue w1) + length (natCashQueue w1) + length (stripeQueue w1)
             = Suc (length (monCashQueue w) + length (natCashQueue w) + length (stripeQueue w)) \<and>
           redis w1 (''idempotency:'' @ k) = Some (resp, now_first + 24 * 60 * 60 * 1000) \<and>
           createRoute is_email environment now_replay nanoid_replay merchant_replay (Some k) body_replay w1
             = (Inr (200, successResponse resp), w1)"
proof -
  have ck: "cache_key (Some k) = Some (''idempotency:'' @ k)"
    using key by (simp add: cache_key_def)
  have miss': "(case cache_key (Some k) of None \<Rightarrow> None | Some x \<Rightarrow> redis_get now_first x w) = None"
    using miss by (simp add: ck)
  obtain p resp w' where
    run: "createRoute is_email environment now_first nanoid_first merchant_first (Some k) body_first w
            = (Inr (201, successResponse resp), w')"
    and rows: "payments w' = payments w @ [p]"
    and jobs: "length (monCashQueue w') + length (natCashQueue w') + length (stripeQueue w')
             = Suc (length (monCashQueue w) + length (natCashQueue w) + length (stripeQueue w))"
    and cache: "(case cache_key (Some k) of
                   None \<Rightarrow> redis w' = redis w
                 | Some x \<Rightarrow> redis w' = (redis w)(x \<mapsto> (resp, now_first + 24 * 60 * 60 * 1000)))"
    using createRoute_row [OF parse1 miss' nofault, of environment nanoid_first merchant_first]
    by blast
  have w1: "w1 = w'" and r1: "r1 = Inr (201, successResponse resp)"
    using first run by simp_all
  have entry: "redis w1 (''idempotency:'' @ k) = Some (resp, now_first + 24 * 60 * 60 * 1000)"
    using cache by (simp add: ck w1)
  have hit: "redis_get now_replay (''idempotency:'' @ k) w1 = Some resp"
    using entry ttl by (simp add: redis_get_def)
  have replay: "createRoute is_email environment now_replay nanoid_replay merchant_replay (Some k) body_replay w1
                  = (Inr (200, successResponse resp), w1)"
    using parse2 hit by (simp add: createRoute_def ck)
  show ?thesis
    using r1 rows jobs entry replay by (auto simp: w1)
qed

theorem idempotent_create_replay_witness:
  "createPaymentSchema example_is_email (create_body 100) \<noteq> None
   \<and> createPaymentSchema example_is_email (create_body 250) \<noteq> None
   \<and> ''key-1'' \<noteq> []
   \<and> redis_get 5000 (''idempotency:'' @ ''key-1'') (example_world Completed []) = None
   \<and> faults (example_world Completed []) = []
   \<and> (7000 :: nat) < 5000 + 24 * 60 * 60 * 1000
   \<and> (\<exists>resp p.
         fst (createRoute example_is_email ''live'' 5000 ''n1'' ''m1'' (Some ''key-1'')
                (create_body 100) (example_world Completed []))
           = Inr (201, successResponse resp) \<and>
         payments (snd (createRoute example_is_email ''live'' 5000 ''n1'' ''m1'' (Some ''key-1'')
                          (create_body 100) (example_world Completed [])))
           = payments (example_world Completed []) @ [p] \<and>
         createRoute example_is_email ''live'' 7000 ''n2'' ''m1'' (Some ''key-1'')
           (create_body 250)
           (snd (createRoute example_is_email ''live'' 5000 ''n1'' ''m1'' (Some ''key-1'')
                   (create_body 100) (example_world Completed [])))
           = (Inr (200, successResponse resp),
              snd (createRoute example_is_email ''live'' 5000 ''n1'' ''m1'' (Some ''key-1'')
                     (create_body 100) (example_world Completed []))))"
proof -
  obtain inp1 where parse1: "createPaymentSchema example_is_email (create_body 100) = Some inp1"
    by (simp add: create_defs)
  obtain inp2 where parse2: "createPaymentSchema example_is_email (create_body 250) = Some inp2"
    by (simp add: create_defs)
  have key: "''key-1'' \<noteq> []"
    by simp
  have miss: "redis_get 5000 (''idempotency:'' @ ''key-1'') (example_world Completed []) = None"
    by (simp add: redis_get_def example_world_def)
  have nofault: "faults (example_world Completed []) = []"
    by (simp add: example_world_def)
  have first: "createRoute example_is_email ''live'' 5000 ''n1'' ''m1'' (Some ''key-1'')
                 (create_body 100) (example_world Completed [])
                 = (fst (createRoute example_is_email ''live'' 5000 ''n1'' ''m1'' (Some ''key-1'')
                           (create_body 100) (example_world Completed [])),
                    snd (createRoute example_is_email ''live'' 5000 ''n1'' ''m1'' (Some ''key-1'')
                           (create_body 100) (example_world Completed [])))"
    by simp
  have ttl: "(7000 :: nat) < 5000 + 24 * 60 * 60 * 1000"
    by simp
  show ?thesis
    using parse1 parse2 miss nofault
      idempotent_create_replay [OF parse1 parse2 key miss nofault first ttl,
        where nanoid_replay = "''n2''" and merchant_replay = "''m1''"]
    by auto
qed

end
